theory Spec2Isabelle
  imports Complex_Main
begin

section \<open>PyNCband: core-shell nanocrystal solver\<close>

text \<open>
  A shallow embedding of \<^verbatim>\<open>PyNCband/physicsfunctions.py\<close> and
  \<^verbatim>\<open>PyNCband/CoreShellParticle.py\<close>. Python floats are modelled as \<^typ>\<open>real\<close> and
  \<^verbatim>\<open>complex128\<close> as \<^typ>\<open>complex\<close>: rounding, infinities and NaN are not represented. A
  numpy array is a list; a scalar handed to a function written for arrays is the array with
  one element. Exceptions are values of the type \<open>error\<close>, in the left summand of a sum.
\<close>

subsection \<open>Constants\<close>

text \<open>
  \<^verbatim>\<open>hbar\<close>, \<^verbatim>\<open>e\<close>, \<^verbatim>\<open>m_e\<close> and \<^verbatim>\<open>epsilon_0\<close> are imported from
  \<^verbatim>\<open>scipy.constants\<close>; their digits depend on the CODATA release that the installed scipy
  ships, so they are a parameter of every function that reads them. The source's names
  \<^verbatim>\<open>e\<close> and \<^verbatim>\<open>m_e\<close> are suffixed: \<^verbatim>\<open>m_e\<close> is also an attribute of a material.
\<close>

record constants =
  hbar :: real
  e_const :: real
  m_e_const :: real
  eps0 :: real

definition valid_constants :: "constants \<Rightarrow> bool" where
  "valid_constants c \<longleftrightarrow> 0 < hbar c \<and> 0 < e_const c \<and> 0 < m_e_const c \<and> 0 < eps0 c"

text \<open>The values of \<^verbatim>\<open>scipy.constants\<close> under CODATA 2014, to the digits shown.\<close>

definition codata :: constants where
  "codata = \<lparr> hbar = 1054571800 / 10 ^ 43,
              e_const = 16021766208 / 10 ^ 29,
              m_e_const = 910938356 / 10 ^ 39,
              eps0 = 8854187817 / 10 ^ 21 \<rparr>"

text \<open>\<^verbatim>\<open>n_ = 1e-9\<close>, the module-level length scale of both source files.\<close>

definition n_nano :: real where
  "n_nano = 1 / 10 ^ 9"

subsection \<open>Materials and particles\<close>

text \<open>
  Modelled from the spec: \<^verbatim>\<open>Material.py\<close> is not among the sources. The record has the
  attributes that the two source files read from a material: the conduction and valence band
  edges, the two effective-mass ratios and the dielectric constant.
\<close>

record Material =
  cbe :: real
  vbe :: real
  m_e :: real
  m_h :: real
  eps :: real

record CoreShellParticle =
  cmat :: Material
  smat :: Material
  core_width :: real
  shell_width :: real
  radius :: real
  type_one :: bool
  type_two :: bool
  h_e :: bool
  e_h :: bool
  energies_valid :: bool
  s1_e :: "real option"
  s1_h :: "real option"
  ue :: real
  uh :: real

datatype error = TypeError | IndexError | ValueError | ZeroDivisionError | RuntimeError

text \<open>
  \<^verbatim>\<open>_is_type_one\<close> and \<^verbatim>\<open>_is_type_two\<close> read \<^verbatim>\<open>self.cmat\<close> and \<^verbatim>\<open>self.smat\<close> only; the
  constructor calls them when both are set.
\<close>

definition is_type_one :: "Material \<Rightarrow> Material \<Rightarrow> bool" where
  "is_type_one core_material shell_material \<longleftrightarrow>
     vbe core_material > vbe shell_material \<and> cbe core_material < cbe shell_material"

definition is_type_two :: "Material \<Rightarrow> Material \<Rightarrow> bool \<times> bool \<times> bool" where
  "is_type_two core_material shell_material =
     (let core_higher = (vbe core_material > vbe shell_material \<and>
                         cbe core_material > cbe shell_material);
          shell_higher = (vbe core_material < vbe shell_material \<and>
                          cbe core_material < cbe shell_material)
      in (core_higher \<or> shell_higher, core_higher, shell_higher))"

definition CoreShellParticle_init ::
  "constants \<Rightarrow> Material \<Rightarrow> Material \<Rightarrow> real \<Rightarrow> real \<Rightarrow> CoreShellParticle" where
  "CoreShellParticle_init c core_material shell_material core_width_nm shell_width_nm =
     (case is_type_two core_material shell_material of
        (t2, he, eh) \<Rightarrow>
          \<lparr> cmat = core_material,
            smat = shell_material,
            core_width = core_width_nm * n_nano,
            shell_width = shell_width_nm * n_nano,
            radius = (core_width_nm + shell_width_nm) * n_nano,
            type_one = is_type_one core_material shell_material,
            type_two = t2,
            h_e = he,
            e_h = eh,
            energies_valid = False,
            s1_e = None,
            s1_h = None,
            ue = \<bar>cbe core_material - cbe shell_material\<bar> * e_const c,
            uh = \<bar>vbe core_material - vbe shell_material\<bar> * e_const c \<rparr>)"

definition set_core_width :: "real \<Rightarrow> CoreShellParticle \<Rightarrow> CoreShellParticle" where
  "set_core_width x self = self\<lparr> core_width := x * n_nano, energies_valid := False \<rparr>"

definition set_shell_width :: "real \<Rightarrow> CoreShellParticle \<Rightarrow> CoreShellParticle" where
  "set_shell_width x self = self\<lparr> shell_width := x * n_nano, energies_valid := False \<rparr>"

text \<open>
  An indium phosphide core in a cadmium sulphide shell with the band edges on one energy
  scale (both edges of the core above those of the shell), and a pair of materials whose
  core edges lie inside the shell's gap.
\<close>

definition InP :: Material where
  "InP = \<lparr> cbe = 0, vbe = - 134 / 100, m_e = 7 / 100, m_h = 64 / 100, eps = 96 / 10 \<rparr>"

definition CdS :: Material where
  "CdS = \<lparr> cbe = - 39 / 100, vbe = - 259 / 100, m_e = 21 / 100, m_h = 68 / 100, eps = 53 / 10 \<rparr>"

definition nested_core :: Material where
  "nested_core = \<lparr> cbe = 134 / 100, vbe = 0, m_e = 7 / 100, m_h = 64 / 100, eps = 96 / 10 \<rparr>"

definition nested_shell :: Material where
  "nested_shell = \<lparr> cbe = 220 / 100, vbe = - 39 / 100, m_e = 21 / 100, m_h = 68 / 100, eps = 53 / 10 \<rparr>"

subsection \<open>physicsfunctions.py\<close>

definition heaviside :: "real \<Rightarrow> real \<Rightarrow> real" where
  "heaviside x1 x2 = (if x1 > 0 then 1 else if x1 = 0 then x2 else 0)"

text \<open>
  \<^verbatim>\<open>_tanxdivx\<close> is compiled for \<^verbatim>\<open>float64\<close> and for \<^verbatim>\<open>complex128\<close>; the one definition
  below is read at \<^typ>\<open>real\<close> and at \<^typ>\<open>complex\<close>.
\<close>

definition tanxdivx :: "'a::{real_normed_field,banach} \<Rightarrow> 'a" where
  "tanxdivx x = (let xsq = x ^ 2 in if norm x < 1 / 10 ^ 13 then 1 - xsq / 2 else tan x / x)"

text \<open>
  \<^verbatim>\<open>tanxdivx = np.vectorize(_tanxdivx)\<close>: no output type is given, and numpy then refuses
  an input of size 0 with a \<^verbatim>\<open>ValueError\<close>.
\<close>

definition tanxdivx_vectorized :: "complex list \<Rightarrow> error + complex list" where
  "tanxdivx_vectorized xs = (if xs = [] then Inl ValueError else Inr (map tanxdivx xs))"

text \<open>
  \<^verbatim>\<open>numpy.lib.scimath.sqrt\<close>, imported as \<^verbatim>\<open>csqrt\<close>: the real root of a non-negative
  argument, and for a negative one the root of the argument taken as a complex number.
\<close>

definition csqrt_scimath :: "real \<Rightarrow> complex" where
  "csqrt_scimath x = (if x < 0 then Complex 0 (sqrt (- x)) else Complex (sqrt x) 0)"

definition wavenumber_from_energy :: "constants \<Rightarrow> real \<Rightarrow> real \<Rightarrow> real \<Rightarrow> complex" where
  "wavenumber_from_energy c energy mass potential_offset =
     csqrt_scimath (2 * mass * m_e_const c * (energy - potential_offset)) / of_real (hbar c)"

text \<open>Lines 194 to 204 of \<^verbatim>\<open>electron_eigenvalue_residual\<close>: the choice of \<^verbatim>\<open>k_e, q_e\<close>.\<close>

definition electron_wavevectors ::
  "constants \<Rightarrow> real list \<Rightarrow> CoreShellParticle \<Rightarrow> complex list option \<times> complex list option" where
  "electron_wavevectors c energy particle =
     (if e_h particle then
        (Some (map (\<lambda>E. wavenumber_from_energy c E (m_e (cmat particle)) 0) energy),
         Some (map (\<lambda>E. wavenumber_from_energy c E (m_e (smat particle)) (ue particle)) energy))
      else if h_e particle then
        (Some (map (\<lambda>E. wavenumber_from_energy c E (m_e (cmat particle)) (ue particle)) energy),
         Some (map (\<lambda>E. wavenumber_from_energy c E (m_e (smat particle)) 0) energy))
      else (None, None))"

text \<open>Lines 247 to 257 of \<^verbatim>\<open>hole_eigenvalue_residual\<close>: the choice of \<^verbatim>\<open>k_h, q_h\<close>.\<close>

definition hole_wavevectors ::
  "constants \<Rightarrow> real list \<Rightarrow> CoreShellParticle \<Rightarrow> complex list option \<times> complex list option" where
  "hole_wavevectors c energy particle =
     (if e_h particle then
        (Some (map (\<lambda>E. wavenumber_from_energy c E (m_e (cmat particle)) 0) energy),
         Some (map (\<lambda>E. wavenumber_from_energy c E (m_e (smat particle)) (ue particle)) energy))
      else if h_e particle then
        (Some (map (\<lambda>E. wavenumber_from_energy c E (m_e (cmat particle)) (ue particle)) energy),
         Some (map (\<lambda>E. wavenumber_from_energy c E (m_e (smat particle)) 0) energy))
      else (None, None))"

text \<open>\<^verbatim>\<open>k * width\<close>: a \<^verbatim>\<open>TypeError\<close> when \<^verbatim>\<open>k\<close> is \<^verbatim>\<open>None\<close>, elementwise otherwise.\<close>

definition times_width :: "complex list option \<Rightarrow> real \<Rightarrow> error + complex list" where
  "times_width k w =
     (case k of None \<Rightarrow> Inl TypeError | Some ks \<Rightarrow> Inr (map (\<lambda>z. z * of_real w) ks))"

text \<open>The quotient of two Python floats raises on a zero divisor.\<close>

definition py_div :: "real \<Rightarrow> real \<Rightarrow> error + real" where
  "py_div a b = (if b = 0 then Inl ZeroDivisionError else Inr (a / b))"

text \<open>
  The inner function \<^verbatim>\<open>_residual\<close> of both residuals. Its quotients have a numpy array
  on the left and do not raise; where a divisor is zero numpy gives an infinity or a NaN,
  which the reals do not have.
\<close>

definition residual ::
  "complex list \<Rightarrow> complex list \<Rightarrow> real \<Rightarrow> real \<Rightarrow> real \<Rightarrow> error + real list" where
  "residual core_x shell_x core_w shell_w mass_ratio =
     (case tanxdivx_vectorized core_x of
        Inl err \<Rightarrow> Inl err
      | Inr tc \<Rightarrow>
          (case tanxdivx_vectorized shell_x of
             Inl err \<Rightarrow> Inl err
           | Inr ts \<Rightarrow>
               Inr (map (\<lambda>(a, b). Re ((1 - 1 / a) * of_real mass_ratio - 1
                                        - 1 / b * of_real core_w / of_real shell_w))
                        (zip tc ts))))"

definition electron_eigenvalue_residual ::
  "constants \<Rightarrow> real list \<Rightarrow> CoreShellParticle \<Rightarrow> error + real list" where
  "electron_eigenvalue_residual c energy particle =
     (case electron_wavevectors c energy particle of
        (k_e, q_e) \<Rightarrow>
          (case times_width k_e (core_width particle) of
             Inl err \<Rightarrow> Inl err
           | Inr core_x \<Rightarrow>
               (case times_width q_e (shell_width particle) of
                  Inl err \<Rightarrow> Inl err
                | Inr shell_x \<Rightarrow>
                    (case py_div (m_e (smat particle)) (m_e (cmat particle)) of
                       Inl err \<Rightarrow> Inl err
                     | Inr mass_ratio \<Rightarrow>
                         residual core_x shell_x (core_width particle) (shell_width particle)
                           mass_ratio))))"

definition hole_eigenvalue_residual ::
  "constants \<Rightarrow> real list \<Rightarrow> CoreShellParticle \<Rightarrow> error + real list" where
  "hole_eigenvalue_residual c energy particle =
     (case hole_wavevectors c energy particle of
        (k_h, q_h) \<Rightarrow>
          (case times_width k_h (core_width particle) of
             Inl err \<Rightarrow> Inl err
           | Inr core_x \<Rightarrow>
               (case times_width q_h (shell_width particle) of
                  Inl err \<Rightarrow> Inl err
                | Inr shell_x \<Rightarrow>
                    (case py_div (m_h (smat particle)) (m_h (cmat particle)) of
                       Inl err \<Rightarrow> Inl err
                     | Inr mass_ratio \<Rightarrow>
                         residual core_x shell_x (core_width particle) (shell_width particle)
                           mass_ratio))))"

text \<open>
  The operator is compiled by numba in \<^verbatim>\<open>nopython\<close> mode, where a float quotient with a
  zero divisor raises \<^verbatim>\<open>ZeroDivisionError\<close>.

  The steps compare the arguments with \<^verbatim>\<open>coreshellparticle.core_width / n_\<close>, and there the
  rounding of the float quotient decides the branch: the stored width is a rounded product
  already, and \<^verbatim>\<open>(0.47 * 1e-9) / 1e-9\<close> is \<^verbatim>\<open>0.47000000000000003\<close>, not \<^verbatim>\<open>0.47\<close>. The
  quotient of floats is therefore the parameter \<open>float_div\<close>, of which nothing is assumed;
  in particular the rescaled width need not be the constructor's argument. The products in
  the denominators are taken over the reals: an underflow to zero is not represented.
\<close>

definition make_coulomb_screening_operator ::
  "constants \<Rightarrow> (real \<Rightarrow> real \<Rightarrow> real) \<Rightarrow> CoreShellParticle \<Rightarrow> real \<Rightarrow> real \<Rightarrow> error + real" where
  "make_coulomb_screening_operator c float_div coreshellparticle =
     (let core_w = float_div (core_width coreshellparticle) n_nano;
          core_eps = eps (cmat coreshellparticle);
          shell_eps = eps (smat coreshellparticle)
      in (\<lambda>r_a r_b.
            let rmax = max r_a r_b;
                r_c = core_w;
                taz = 1 / 2
            in if rmax * core_eps * eps0 c = 0 \<or> 2 * rmax * shell_eps * eps0 c = 0
               then Inl ZeroDivisionError
               else Inr ((- heaviside (r_c - r_a) taz * heaviside (r_c - r_b) taz
                            / (rmax * core_eps * eps0 c)
                          - (heaviside (r_a - r_c) taz + heaviside (r_b - r_c) taz)
                            / (2 * rmax * shell_eps * eps0 c))
                         * e_const c / n_nano)))"

text \<open>
  \<^verbatim>\<open>np.linspace\<close>: \<^verbatim>\<open>num\<close> points from \<^verbatim>\<open>start\<close> to \<^verbatim>\<open>stop\<close>, both included; a single
  point is \<^verbatim>\<open>start\<close>; a negative \<^verbatim>\<open>num\<close> is a \<^verbatim>\<open>ValueError\<close>.
\<close>

definition sample_point :: "real \<Rightarrow> real \<Rightarrow> int \<Rightarrow> nat \<Rightarrow> real" where
  "sample_point start stop num i =
     (if num = 1 then start else start + real i * ((stop - start) / real_of_int (num - 1)))"

definition linspace :: "real \<Rightarrow> real \<Rightarrow> int \<Rightarrow> error + real list" where
  "linspace start stop num =
     (if num < 0 then Inl ValueError
      else Inr (map (sample_point start stop num) [0..<nat num]))"

text \<open>\<^verbatim>\<open>np.diff\<close>: the differences of neighbours, one element shorter.\<close>

definition np_diff :: "real list \<Rightarrow> real list" where
  "np_diff ys = map (\<lambda>(a, b). b - a) (zip ys (tl ys))"

text \<open>
  \<^verbatim>\<open>f\<close> is called once, on the whole array of sample points, and may raise. Indexing the
  empty array of positions, or \<^verbatim>\<open>x\<close> beyond its end, is an \<^verbatim>\<open>IndexError\<close>.
\<close>

definition scan_and_bracket ::
  "(real list \<Rightarrow> error + real list) \<Rightarrow> real \<Rightarrow> real \<Rightarrow> int \<Rightarrow> error + real \<times> real" where
  "scan_and_bracket f lower_bound upper_bound resolution =
     (case linspace lower_bound upper_bound resolution of
        Inl err \<Rightarrow> Inl err
      | Inr x \<Rightarrow>
          (case f x of
             Inl err \<Rightarrow> Inl err
           | Inr y \<Rightarrow>
               (let y_signs = map sgn y;
                    y_sign_change = np_diff y_signs;
                    y_neg2pos_change =
                      filter (\<lambda>i. y_sign_change ! i > 1 / 2) [0..<length y_sign_change]
                in case y_neg2pos_change of
                     [] \<Rightarrow> Inl IndexError
                   | root_position # _ \<Rightarrow>
                       if root_position + 1 < length x
                       then Inr (x ! root_position, x ! (root_position + 1))
                       else Inl IndexError)))"

subsection \<open>CoreShellParticle.calculate_s1_energies\<close>

text \<open>
  \<^verbatim>\<open>scipy.optimize.brentq\<close> is a parameter: a function of the residual (called on one
  energy at a time) and of the two ends of the bracket, which returns a root or raises.
\<close>

type_synonym root_finder = "(real \<Rightarrow> error + real) \<Rightarrow> real \<Rightarrow> real \<Rightarrow> error + real"

text \<open>
  The residual on a single energy, as the root finder calls it: the result has to be one
  number.
\<close>

definition scalar_call :: "(real list \<Rightarrow> error + real list) \<Rightarrow> real \<Rightarrow> error + real" where
  "scalar_call f x =
     (case f [x] of Inl err \<Rightarrow> Inl err | Inr [y] \<Rightarrow> Inr y | Inr _ \<Rightarrow> Inl TypeError)"

text \<open>\<^verbatim>\<open>a, b = t\<close>: a \<^verbatim>\<open>ValueError\<close> unless the tuple has two elements.\<close>

definition unpack2 :: "real list \<Rightarrow> error + real \<times> real" where
  "unpack2 t = (case t of [a, b] \<Rightarrow> Inr (a, b) | _ \<Rightarrow> Inl ValueError)"

text \<open>The scan range of the electron search (lines 95, 96, 102 and 103).\<close>

definition electron_bounds :: "real list \<Rightarrow> CoreShellParticle \<Rightarrow> error + real \<times> real" where
  "electron_bounds bounds self =
     (if bounds \<noteq> [] then unpack2 (take 2 bounds) else Inr (0, 5 * ue self))"

text \<open>The scan range of the hole search (lines 97, 98, 111 and 112).\<close>

definition hole_bounds :: "real list \<Rightarrow> CoreShellParticle \<Rightarrow> error + real \<times> real" where
  "hole_bounds bounds self =
     (if bounds \<noteq> [] then unpack2 (drop 2 bounds) else Inr (0, 5 * uh self))"

text \<open>The scan followed by the refinement (lines 108 and 109, and again 117 to 119).\<close>

definition bracket_and_refine ::
  "root_finder \<Rightarrow> (real list \<Rightarrow> error + real list) \<Rightarrow> real \<Rightarrow> real \<Rightarrow> int \<Rightarrow> error + real" where
  "bracket_and_refine brentq f lower_bound upper_bound resolution =
     (case scan_and_bracket f lower_bound upper_bound resolution of
        Inl err \<Rightarrow> Inl err
      | Inr (a, b) \<Rightarrow> brentq (scalar_call f) a b)"

text \<open>
  The query returns its result and the particle as the call leaves it: an exception in the
  hole search leaves \<^verbatim>\<open>s1_e\<close> already assigned.
\<close>

definition calculate_s1_energies ::
  "constants \<Rightarrow> root_finder \<Rightarrow> real list \<Rightarrow> int \<Rightarrow> bool \<Rightarrow> CoreShellParticle
     \<Rightarrow> (error + real option \<times> real option) \<times> CoreShellParticle" where
  "calculate_s1_energies c brentq bounds resolution as_ev self =
     (if energies_valid self then (Inr (s1_e self, s1_h self), self)
      else
        case linspace 0 (5 * ue self) resolution of
          Inl err \<Rightarrow> (Inl err, self)
        | Inr x \<Rightarrow>
        (case electron_bounds bounds self of
          Inl err \<Rightarrow> (Inl err, self)
        | Inr (lower_bound_e, upper_bound_e) \<Rightarrow>
        (case bracket_and_refine brentq (\<lambda>x. electron_eigenvalue_residual c x self)
                lower_bound_e upper_bound_e resolution of
          Inl err \<Rightarrow> (Inl err, self)
        | Inr root_e \<Rightarrow>
        (let self1 = self\<lparr> s1_e := Some root_e \<rparr> in
         case hole_bounds bounds self1 of
          Inl err \<Rightarrow> (Inl err, self1)
        | Inr (lower_bound_h, upper_bound_h) \<Rightarrow>
        (case bracket_and_refine brentq (\<lambda>x. hole_eigenvalue_residual c x self1)
                lower_bound_h upper_bound_h resolution of
          Inl err \<Rightarrow> (Inl err, self1)
        | Inr root_h \<Rightarrow>
        (let self2 = self1\<lparr> s1_h := Some root_h, energies_valid := True \<rparr> in
         if as_ev then (Inr (Some (root_e / e_const c), Some (root_h / e_const c)), self2)
         else (Inr (Some root_e, Some root_h), self2)))))))"

text \<open>A caller's use of one particle: any sequence of the three public calls.\<close>

datatype call = SetCoreWidth real | SetShellWidth real | CalculateS1Energies "real list" int bool

fun do_call :: "constants \<Rightarrow> root_finder \<Rightarrow> CoreShellParticle \<Rightarrow> call \<Rightarrow> CoreShellParticle" where
  "do_call c brentq self (SetCoreWidth x) = set_core_width x self"
| "do_call c brentq self (SetShellWidth x) = set_shell_width x self"
| "do_call c brentq self (CalculateS1Energies bounds resolution as_ev) =
     snd (calculate_s1_energies c brentq bounds resolution as_ev self)"

definition do_calls ::
  "constants \<Rightarrow> root_finder \<Rightarrow> CoreShellParticle \<Rightarrow> call list \<Rightarrow> CoreShellParticle" where
  "do_calls c brentq self calls = foldl (do_call c brentq) self calls"

section \<open>Properties\<close>

subsection \<open>Constants and scalar helpers\<close>

lemma n_nano_pos: "0 < n_nano"
  by (simp add: n_nano_def)

lemma valid_codata: "valid_constants codata"
  by (simp add: valid_constants_def codata_def)

lemma tanxdivx_of_real: "tanxdivx (complex_of_real x) = complex_of_real (tanxdivx x)"
  by (simp add: tanxdivx_def Let_def tan_of_real)

lemma csqrt_scimath_eq: "csqrt_scimath x = csqrt (complex_of_real x)"
proof (cases "x < 0")
  case True
  then have "csqrt (complex_of_real x) = complex_of_real (sqrt \<bar>x\<bar>) * \<i>"
    by (simp add: csqrt_of_real')
  then show ?thesis using True by (simp add: csqrt_scimath_def complex_eq_iff)
next
  case False
  then show ?thesis by (simp add: csqrt_scimath_def csqrt_of_real complex_eq_iff)
qed

lemma tan_pos_small: "0 < tan ((1::real) / 10 ^ 6)"
proof -
  have "(1::real) / 10 ^ 6 < pi / 2" using pi_ge_two by simp
  then show ?thesis by (intro tan_gt_zero) simp_all
qed

lemma wavenumber_csqrt:
  "wavenumber_from_energy c E m U
     = csqrt (complex_of_real (2 * m * m_e_const c * (E - U))) / complex_of_real (hbar c)"
  by (simp add: wavenumber_from_energy_def csqrt_scimath_eq)

subsection \<open>Band alignment\<close>

text \<open>
  C8. Whenever the valence band edge of the core is strictly above that of the shell and the
  conduction band edge of the core strictly below that of the shell, the constructed
  particle has \<open>type_one\<close> set and none of \<open>type_two\<close>, \<open>h_e\<close>, \<open>e_h\<close>.
\<close>

theorem type_one_classification:
  assumes "vbe cm > vbe sm" and "cbe cm < cbe sm"
  shows "type_one (CoreShellParticle_init c cm sm cw sw) \<and>
         \<not> type_two (CoreShellParticle_init c cm sm cw sw) \<and>
         \<not> h_e (CoreShellParticle_init c cm sm cw sw) \<and>
         \<not> e_h (CoreShellParticle_init c cm sm cw sw)"
  using assms by (simp add: CoreShellParticle_init_def is_type_two_def is_type_one_def Let_def)

theorem type_one_classification_witness:
  "vbe nested_core > vbe nested_shell \<and> cbe nested_core < cbe nested_shell \<and>
   type_one (CoreShellParticle_init codata nested_core nested_shell (123 / 100) (105 / 100)) \<and>
   \<not> type_two (CoreShellParticle_init codata nested_core nested_shell (123 / 100) (105 / 100)) \<and>
   \<not> h_e (CoreShellParticle_init codata nested_core nested_shell (123 / 100) (105 / 100)) \<and>
   \<not> e_h (CoreShellParticle_init codata nested_core nested_shell (123 / 100) (105 / 100))"
proof -
  have a: "vbe nested_core > vbe nested_shell" by (simp add: nested_core_def nested_shell_def)
  have b: "cbe nested_core < cbe nested_shell" by (simp add: nested_core_def nested_shell_def)
  show ?thesis
    using a b type_one_classification [OF a b, of codata "123 / 100" "105 / 100"] by simp
qed

subsection \<open>Geometry\<close>

text \<open>
  C4. The radius should equal the sum of the two widths after every width mutation. It does
  not: \<open>set_core_width\<close> assigns the core width and clears the validity flag, and leaves the
  radius as the constructor computed it. For the InP/CdS particle built with widths 1.23 and
  1.05 and then given a core width of 2, the radius is still 2.28 nm while the widths add
  up to 3.05 nm.
\<close>

theorem set_core_width_keeps_radius:
  "radius (set_core_width 2 (CoreShellParticle_init codata InP CdS (123 / 100) (105 / 100)))
     = 228 / 100 * n_nano \<and>
   core_width (set_core_width 2 (CoreShellParticle_init codata InP CdS (123 / 100) (105 / 100)))
   + shell_width (set_core_width 2 (CoreShellParticle_init codata InP CdS (123 / 100) (105 / 100)))
     = 305 / 100 * n_nano \<and>
   radius (set_core_width 2 (CoreShellParticle_init codata InP CdS (123 / 100) (105 / 100)))
     \<noteq> core_width (set_core_width 2 (CoreShellParticle_init codata InP CdS (123 / 100) (105 / 100)))
       + shell_width (set_core_width 2 (CoreShellParticle_init codata InP CdS (123 / 100) (105 / 100)))"
  by (simp add: set_core_width_def CoreShellParticle_init_def is_type_two_def Let_def n_nano_def)

subsection \<open>The stabilised tangent ratio\<close>

text \<open>
  C7. For a real and for a complex argument, \<open>tanxdivx x\<close> is \<open>1 - x\<^sup>2 / 2\<close> when the modulus
  of \<open>x\<close> is below \<open>1e-13\<close> and \<open>tan x / x\<close> otherwise; it is 1 at 0, and at \<open>1e-6\<close> it is
  within a relative error of \<open>1e-9\<close> of \<open>tan x / x\<close> (it is that quotient).
\<close>

theorem tanxdivx_values:
  "tanxdivx (x::real) = (if \<bar>x\<bar> < 1 / 10 ^ 13 then 1 - x\<^sup>2 / 2 else tan x / x) \<and>
   tanxdivx (z::complex) = (if cmod z < 1 / 10 ^ 13 then 1 - z\<^sup>2 / 2 else tan z / z) \<and>
   tanxdivx (0::real) = 1 \<and> tanxdivx (0::complex) = 1 \<and>
   \<bar>tanxdivx ((1::real) / 10 ^ 6) - tan (1 / 10 ^ 6) / (1 / 10 ^ 6)\<bar>
     < 1 / 10 ^ 9 * \<bar>tan ((1::real) / 10 ^ 6) / (1 / 10 ^ 6)\<bar>"
proof -
  have a: "tanxdivx (x::real) = (if \<bar>x\<bar> < 1 / 10 ^ 13 then 1 - x\<^sup>2 / 2 else tan x / x)"
    by (simp add: tanxdivx_def Let_def)
  have b: "tanxdivx (z::complex) = (if cmod z < 1 / 10 ^ 13 then 1 - z\<^sup>2 / 2 else tan z / z)"
    by (simp add: tanxdivx_def Let_def)
  have c: "tanxdivx (0::real) = 1" by (simp add: tanxdivx_def Let_def)
  have d: "tanxdivx (0::complex) = 1" by (simp add: tanxdivx_def Let_def)
  have e1: "tanxdivx ((1::real) / 10 ^ 6) = tan (1 / 10 ^ 6) / (1 / 10 ^ 6)"
    by (simp add: tanxdivx_def Let_def)
  have e: "\<bar>tanxdivx ((1::real) / 10 ^ 6) - tan (1 / 10 ^ 6) / (1 / 10 ^ 6)\<bar>
     < 1 / 10 ^ 9 * \<bar>tan ((1::real) / 10 ^ 6) / (1 / 10 ^ 6)\<bar>"
    unfolding e1 using tan_pos_small by simp
  show ?thesis using a b c d e by blast
qed

subsection \<open>The hole equation\<close>

text \<open>
  C1. The hole residual should take its wavevectors from the hole masses and the hole
  offset. It does not: for every particle and every energy, the wavevectors of
  \<open>hole_eigenvalue_residual\<close> are those of \<open>electron_eigenvalue_residual\<close>, computed from
  \<open>m_e\<close> and \<open>ue\<close>, and neither they nor the residual change when the hole masses enter
  only through the mass ratio and the hole offset \<open>uh\<close> is replaced.
\<close>

theorem hole_residual_uses_electron_parameters:
  "hole_wavevectors c energy p = electron_wavevectors c energy p \<and>
   hole_wavevectors c energy
       (p\<lparr> cmat := (cmat p)\<lparr> m_h := a \<rparr>, smat := (smat p)\<lparr> m_h := b \<rparr>, uh := u \<rparr>)
     = hole_wavevectors c energy p \<and>
   hole_eigenvalue_residual c energy (p\<lparr> uh := u \<rparr>) = hole_eigenvalue_residual c energy p"
proof -
  have w: "hole_wavevectors c energy (p\<lparr> uh := u \<rparr>) = hole_wavevectors c energy p"
    by (simp add: hole_wavevectors_def)
  have r: "hole_eigenvalue_residual c energy (p\<lparr> uh := u \<rparr>)
             = hole_eigenvalue_residual c energy p"
    unfolding hole_eigenvalue_residual_def w by (simp cong: prod.case_cong sum.case_cong)
  show ?thesis
    using r by (simp add: hole_wavevectors_def electron_wavevectors_def)
qed

subsection \<open>The wavenumber\<close>

text \<open>
  C6, as stated, fails for a negative mass ratio: at energy 1, offset 0 and mass ratio \<open>-1\<close>
  the energy is above the offset and the wavenumber is purely imaginary, not real.
\<close>

theorem wavenumber_negative_mass_counterexample:
  "(0::real) \<le> 1 \<and> Im (wavenumber_from_energy codata 1 (- 1) 0) \<noteq> 0"
proof -
  have "Im (wavenumber_from_energy codata 1 (- 1) 0) = sqrt (2 * m_e_const codata) / hbar codata"
    by (simp add: wavenumber_from_energy_def csqrt_scimath_def codata_def)
  moreover have "0 < sqrt (2 * m_e_const codata) / hbar codata"
    by (simp add: codata_def)
  ultimately have "Im (wavenumber_from_energy codata 1 (- 1) 0) \<noteq> 0" by linarith
  then show ?thesis by simp
qed

text \<open>
  C6, amended. With positive constants, for every energy, mass ratio and potential offset
  \<open>wavenumber_from_energy\<close> is the principal complex square root of
  \<open>2 * mass * m_e * (energy - potential_offset)\<close> divided by \<open>hbar\<close>, with a non-negative real
  part; it is 0 when the energy equals the offset; and it is real when the energy is at
  least the offset and the mass ratio is not negative.
\<close>

theorem wavenumber_from_energy_principal:
  assumes "valid_constants c"
  shows "wavenumber_from_energy c E m U
           = csqrt (complex_of_real (2 * m * m_e_const c * (E - U))) / complex_of_real (hbar c) \<and>
         0 \<le> Re (wavenumber_from_energy c E m U) \<and>
         wavenumber_from_energy c U m U = 0 \<and>
         (0 \<le> m \<and> U \<le> E \<longrightarrow> Im (wavenumber_from_energy c E m U) = 0)"
proof -
  have h: "0 < hbar c" and me: "0 < m_e_const c"
    using assms by (simp_all add: valid_constants_def)
  have "Re (wavenumber_from_energy c E m U)
          = Re (csqrt (complex_of_real (2 * m * m_e_const c * (E - U)))) / hbar c"
    by (simp only: wavenumber_csqrt Re_divide_of_real)
  moreover have "0 \<le> Re (csqrt (complex_of_real (2 * m * m_e_const c * (E - U))))"
    by (rule Re_csqrt)
  ultimately have re: "0 \<le> Re (wavenumber_from_energy c E m U)"
    using h by (simp only: divide_nonneg_pos)
  have z: "wavenumber_from_energy c U m U = 0"
    by (simp add: wavenumber_csqrt)
  have im: "Im (wavenumber_from_energy c E m U) = 0" if "0 \<le> m" "U \<le> E"
  proof -
    have "0 \<le> 2 * m * m_e_const c * (E - U)" using that me by simp
    then show ?thesis by (simp add: wavenumber_from_energy_def csqrt_scimath_def)
  qed
  show ?thesis using re z im wavenumber_csqrt by blast
qed

theorem wavenumber_from_energy_principal_witness:
  "valid_constants codata \<and> (0::real) \<le> 1 \<and> (0::real) \<le> 1 \<and>
   wavenumber_from_energy codata 1 1 0
     = csqrt (complex_of_real (2 * 1 * m_e_const codata * (1 - 0))) / complex_of_real (hbar codata) \<and>
   0 \<le> Re (wavenumber_from_energy codata 1 1 0) \<and>
   wavenumber_from_energy codata 0 1 0 = 0 \<and>
   Im (wavenumber_from_energy codata 1 1 0) = 0"
proof -
  have a: "(0::real) \<le> 1" by simp
  note t = wavenumber_from_energy_principal [OF valid_codata, of 1 1 0]
  show ?thesis using a valid_codata t by blast
qed

subsection \<open>The Coulomb screening operator\<close>

text \<open>
  C9, as stated, fails: for the InP/CdS particle with a core of 1.23 at \<open>r_a = r_b = 1\<close>,
  well inside the core whatever the rounding of the rescaled width, the operator is not the
  stated expression times \<open>e / n_\<close>, since both denominators of the code also contain the
  vacuum permittivity; and with a core of dielectric constant 0 the operator raises for
  positive radii.
\<close>

theorem coulomb_screening_operator_counterexample:
  "make_coulomb_screening_operator codata (\<lambda>a b. a / b)
       (CoreShellParticle_init codata InP CdS (123 / 100) (105 / 100)) 1 1
     \<noteq> Inr ((- heaviside (123 / 100 - 1) (1 / 2) * heaviside (123 / 100 - 1) (1 / 2)
               / (max 1 1 * eps InP)
             - (heaviside (1 - 123 / 100) (1 / 2) + heaviside (1 - 123 / 100) (1 / 2))
               / (2 * max 1 1 * eps CdS))
            * e_const codata / n_nano) \<and>
   make_coulomb_screening_operator codata (\<lambda>a b. a / b)
       (CoreShellParticle_init codata (InP\<lparr> eps := 0 \<rparr>) CdS (123 / 100) (105 / 100)) 1 1
     = Inl ZeroDivisionError"
  by (simp add: make_coulomb_screening_operator_def CoreShellParticle_init_def is_type_two_def
      Let_def heaviside_def InP_def CdS_def codata_def n_nano_def)

text \<open>
  C9, amended. Let \<open>core\<close> be the stored core width divided by \<open>n_\<close> as the float quotient
  gives it. Where no denominator vanishes, the operator is the stated combination of steps
  of \<open>core - r\<close> and \<open>r - core\<close> over \<open>max r_a r_b\<close> and the two dielectric constants,
  multiplied by \<open>e / (n_ * eps0)\<close>; a vanishing denominator is a \<open>ZeroDivisionError\<close>. The
  step is 1 above 0, \<open>1 / 2\<close> at 0 and 0 below.
\<close>

theorem coulomb_screening_operator_value:
  "make_coulomb_screening_operator c float_div p r_a r_b =
     (if max r_a r_b * eps (cmat p) * eps0 c = 0 \<or> 2 * max r_a r_b * eps (smat p) * eps0 c = 0
      then Inl ZeroDivisionError
      else Inr ((- heaviside (float_div (core_width p) n_nano - r_a) (1 / 2)
                   * heaviside (float_div (core_width p) n_nano - r_b) (1 / 2)
                   / (max r_a r_b * eps (cmat p))
                 - (heaviside (r_a - float_div (core_width p) n_nano) (1 / 2)
                    + heaviside (r_b - float_div (core_width p) n_nano) (1 / 2))
                   / (2 * max r_a r_b * eps (smat p)))
                * e_const c / (n_nano * eps0 c))) \<and>
   heaviside x (1 / 2) = (if 0 < x then 1 else if x = 0 then 1 / 2 else 0)"
proof -
  have h: "heaviside x (1 / 2) = (if 0 < x then 1 else if x = 0 then 1 / 2 else 0)"
    by (simp add: heaviside_def)
  have g: "(X / z - Y / z) * q / n = (X - Y) * q / (n * z)" for X Y z q n :: real
    by (cases "z = 0"; cases "n = 0"; simp add: field_simps)
  have a1: "- A / (m * ec * z) = (- A / (m * ec)) / z" for A m ec z :: real
    by simp
  have a2: "B / (2 * m * es * z) = (B / (2 * m * es)) / z" for B m es z :: real
    by simp
  have "(- A / (m * ec * z) - B / (2 * m * es * z)) * q / n
          = (- A / (m * ec) - B / (2 * m * es)) * q / (n * z)" for A B m ec es z q n :: real
    unfolding a1 a2 by (rule g)
  then have v: "make_coulomb_screening_operator c float_div p r_a r_b =
     (if max r_a r_b * eps (cmat p) * eps0 c = 0 \<or> 2 * max r_a r_b * eps (smat p) * eps0 c = 0
      then Inl ZeroDivisionError
      else Inr ((- heaviside (float_div (core_width p) n_nano - r_a) (1 / 2)
                   * heaviside (float_div (core_width p) n_nano - r_b) (1 / 2)
                   / (max r_a r_b * eps (cmat p))
                 - (heaviside (r_a - float_div (core_width p) n_nano) (1 / 2)
                    + heaviside (r_b - float_div (core_width p) n_nano) (1 / 2))
                   / (2 * max r_a r_b * eps (smat p)))
                * e_const c / (n_nano * eps0 c)))"
    unfolding make_coulomb_screening_operator_def Let_def by (simp del: mult_eq_0_iff)
  show ?thesis using h v by blast
qed

subsection \<open>The bracket scan\<close>

lemma length_np_diff: "length (np_diff ys) = length ys - 1"
  by (simp add: np_diff_def)

lemma nth_np_diff: "i + 1 < length ys \<Longrightarrow> np_diff ys ! i = ys ! (i + 1) - ys ! i"
  by (simp add: np_diff_def nth_tl)

lemma sgn_step: "(1 / 2 < sgn b - sgn a) = (sgn a < sgn (b::real))"
  by (auto simp: sgn_real_def split: if_splits)

lemma sign_change_nth:
  "i + 1 < length y \<Longrightarrow> (1 / 2 < np_diff (map sgn y) ! i) = (sgn (y ! i) < sgn (y ! (i + 1) :: real))"
proof -
  assume a: "i + 1 < length y"
  then have "np_diff (map sgn y) ! i = sgn (y ! (i + 1)) - sgn (y ! i)"
    by (simp add: nth_np_diff)
  then show ?thesis by (simp only: sgn_step)
qed

lemma filter_upt_first:
  "filter P [m..<n] = i # rest \<Longrightarrow> m \<le> i \<and> i < n \<and> P i \<and> (\<forall>j. m \<le> j \<and> j < i \<longrightarrow> \<not> P j)"
proof (induction "n - m" arbitrary: m)
  case 0
  then show ?case by simp
next
  case (Suc k)
  then have mn: "m < n" by simp
  then have u: "[m..<n] = m # [Suc m..<n]" by (simp add: upt_conv_Cons)
  show ?case
  proof (cases "P m")
    case True
    with Suc.prems u have "i = m" by simp
    with True mn show ?thesis by auto
  next
    case False
    with Suc.prems u have f: "filter P [Suc m..<n] = i # rest" by simp
    from Suc.hyps have "k = n - Suc m" by simp
    from Suc.hyps(1) [OF this f]
    have ih: "Suc m \<le> i \<and> i < n \<and> P i \<and> (\<forall>j. Suc m \<le> j \<and> j < i \<longrightarrow> \<not> P j)" .
    have "\<not> P j" if "m \<le> j" "j < i" for j
    proof (cases "j = m")
      case True
      with False show ?thesis by simp
    next
      case False
      with that ih show ?thesis by simp
    qed
    with ih show ?thesis by auto
  qed
qed

lemma filter_upt_first_conv:
  "(\<exists>rest. filter P [0..<n] = i # rest) \<longleftrightarrow> i < n \<and> P i \<and> (\<forall>j<i. \<not> P j)"
proof
  assume "\<exists>rest. filter P [0..<n] = i # rest"
  then obtain rest where "filter P [0..<n] = i # rest" by blast
  from filter_upt_first [OF this]
  show "i < n \<and> P i \<and> (\<forall>j<i. \<not> P j)" by simp
next
  assume a: "i < n \<and> P i \<and> (\<forall>j<i. \<not> P j)"
  then obtain k where k: "n = i + k" and kp: "0 < k"
    using less_imp_add_positive by blast
  have "[0..<i + k] = [0..<i] @ [i..<i + k]"
    by (rule upt_add_eq_append) simp
  moreover have "[i..<i + k] = i # [Suc i..<i + k]"
    using kp by (intro upt_conv_Cons) simp
  ultimately have e: "[0..<n] = [0..<i] @ i # [Suc i..<n]"
    unfolding k by (simp only:)
  have f: "filter P [0..<i] = []" using a by (simp add: filter_empty_conv)
  have "filter P [0..<n] = i # filter P [Suc i..<n]"
    unfolding e using a f by (simp del: upt_Suc)
  then show "\<exists>rest. filter P [0..<n] = i # rest" by blast
qed

lemma linspace_samples:
  "0 \<le> n \<Longrightarrow> linspace lo hi n = Inr (map (sample_point lo hi n) [0..<nat n])"
  by (simp add: linspace_def)

lemma sign_change_filter:
  "filter (\<lambda>i. 1 / 2 < np_diff (map sgn y) ! i) [0..<length (np_diff (map sgn y))]
     = filter (\<lambda>i. sgn (y ! i) < sgn (y ! (i + 1) :: real)) [0..<length y - 1]"
proof -
  have "(1 / 2 < np_diff (map sgn y) ! i) = (sgn (y ! i) < sgn (y ! (i + 1)))"
    if "i \<in> set [0..<length y - 1]" for i
    using that by (intro sign_change_nth) simp
  then show ?thesis
    by (simp only: length_np_diff length_map cong: filter_cong)
qed

lemma scan_and_bracket_result:
  assumes "0 \<le> res" and "f (map (sample_point lo hi res) [0..<nat res]) = Inr y"
  shows "scan_and_bracket f lo hi res =
           (case filter (\<lambda>i. sgn (y ! i) < sgn (y ! (i + 1))) [0..<length y - 1] of
              [] \<Rightarrow> Inl IndexError
            | i # _ \<Rightarrow> if i + 1 < nat res
                       then Inr (sample_point lo hi res i, sample_point lo hi res (i + 1))
                       else Inl IndexError)"
proof -
  have "scan_and_bracket f lo hi res =
           (case filter (\<lambda>i. 1 / 2 < np_diff (map sgn y) ! i) [0..<length (np_diff (map sgn y))] of
              [] \<Rightarrow> Inl IndexError
            | i # _ \<Rightarrow> if i + 1 < nat res
                       then Inr (sample_point lo hi res i, sample_point lo hi res (i + 1))
                       else Inl IndexError)"
    using assms
    by (simp add: scan_and_bracket_def linspace_samples Let_def cong: list.case_cong if_cong)
  then show ?thesis by (simp only: sign_change_filter)
qed

lemma scan_and_bracket_error:
  assumes "0 \<le> res" and "f (map (sample_point lo hi res) [0..<nat res]) = Inl err"
  shows "scan_and_bracket f lo hi res = Inl err"
  using assms by (simp add: scan_and_bracket_def linspace_samples)

lemma scan_and_bracket_iff:
  assumes "0 \<le> res"
  shows "scan_and_bracket f lo hi res = Inr (a, b) \<longleftrightarrow>
         (\<exists>y i. f (map (sample_point lo hi res) [0..<nat res]) = Inr y \<and>
                i + 1 < length y \<and> i + 1 < nat res \<and>
                sgn (y ! i) < sgn (y ! (i + 1)) \<and>
                (\<forall>j<i. \<not> sgn (y ! j) < sgn (y ! (j + 1))) \<and>
                a = sample_point lo hi res i \<and> b = sample_point lo hi res (i + 1))"
  (is "?L \<longleftrightarrow> ?R")
proof (cases "f (map (sample_point lo hi res) [0..<nat res])")
  case (Inl err)
  then show ?thesis using scan_and_bracket_error [where f = f and lo = lo and hi = hi, OF assms Inl] by simp
next
  case (Inr y)
  let ?P = "\<lambda>i. sgn (y ! i) < sgn (y ! (i + 1))"
  note r = scan_and_bracket_result [where f = f and lo = lo and hi = hi, OF assms Inr]
  show ?thesis
  proof
    assume l: ?L
    then obtain i rest where fl: "filter ?P [0..<length y - 1] = i # rest"
      and ir: "i + 1 < nat res"
      and ab: "a = sample_point lo hi res i" "b = sample_point lo hi res (i + 1)"
      unfolding r by (auto split: list.splits if_splits)
    from fl have "\<exists>rest. filter ?P [0..<length y - 1] = i # rest" by blast
    with filter_upt_first_conv [of ?P "length y - 1" i]
    have "i < length y - 1 \<and> ?P i \<and> (\<forall>j<i. \<not> ?P j)"
      by blast
    then have "i + 1 < length y \<and> ?P i \<and> (\<forall>j<i. \<not> ?P j)" by auto
    with Inr ir ab show ?R by blast
  next
    assume ?R
    then obtain i where iy: "i + 1 < length y" and ir: "i + 1 < nat res"
      and pi: "?P i" and pj: "\<forall>j<i. \<not> ?P j"
      and ab: "a = sample_point lo hi res i" "b = sample_point lo hi res (i + 1)"
      using Inr by auto
    from iy pi pj have "i < length y - 1 \<and> ?P i \<and> (\<forall>j<i. \<not> ?P j)" by simp
    with filter_upt_first_conv [of ?P "length y - 1" i]
    have "\<exists>rest. filter ?P [0..<length y - 1] = i # rest"
      by blast
    then obtain rest where "filter ?P [0..<length y - 1] = i # rest" by blast
    with ir ab show ?L unfolding r by simp
  qed
qed

lemma scan_and_bracket_no_increase:
  assumes "0 \<le> res" and "f (map (sample_point lo hi res) [0..<nat res]) = Inr y"
    and "\<forall>i. i + 1 < length y \<longrightarrow> \<not> sgn (y ! i) < sgn (y ! (i + 1))"
  shows "scan_and_bracket f lo hi res = Inl IndexError"
proof -
  have "filter (\<lambda>i. sgn (y ! i) < sgn (y ! (i + 1))) [0..<length y - 1] = []"
    using assms(3) by (simp add: filter_empty_conv)
  then show ?thesis
    unfolding scan_and_bracket_result [where f = f and lo = lo and hi = hi, OF assms(1,2)] by simp
qed

subsection \<open>The energy query\<close>

lemma electron_residual_cache_fields:
  "electron_eigenvalue_residual c xs (p\<lparr> s1_e := v \<rparr>) = electron_eigenvalue_residual c xs p"
  "electron_eigenvalue_residual c xs (p\<lparr> s1_h := w \<rparr>) = electron_eigenvalue_residual c xs p"
  by (simp_all add: electron_eigenvalue_residual_def electron_wavevectors_def
      cong: prod.case_cong sum.case_cong)

lemma hole_residual_cache_fields:
  "hole_eigenvalue_residual c xs (p\<lparr> s1_e := v \<rparr>) = hole_eigenvalue_residual c xs p"
  "hole_eigenvalue_residual c xs (p\<lparr> s1_h := w \<rparr>) = hole_eigenvalue_residual c xs p"
  by (simp_all add: hole_eigenvalue_residual_def hole_wavevectors_def
      cong: prod.case_cong sum.case_cong)

lemma residual_none:
  assumes "\<not> e_h p" and "\<not> h_e p"
  shows "electron_wavevectors c energy p = (None, None)"
    and "hole_wavevectors c energy p = (None, None)"
    and "electron_eigenvalue_residual c energy p = Inl TypeError"
    and "hole_eigenvalue_residual c energy p = Inl TypeError"
  using assms
  by (simp_all add: electron_wavevectors_def hole_wavevectors_def electron_eigenvalue_residual_def
      hole_eigenvalue_residual_def times_width_def)

lemma bracket_and_refine_error:
  assumes "0 \<le> res" and "\<And>xs. f xs = Inl err"
  shows "bracket_and_refine brentq f lo hi res = Inl err"
proof -
  have "scan_and_bracket f lo hi res = Inl err"
    using assms by (simp add: scan_and_bracket_def linspace_samples)
  then show ?thesis by (simp add: bracket_and_refine_def)
qed

lemma electron_bounds_cases:
  "electron_bounds bounds p =
     (if bounds = [] then Inr (0, 5 * ue p)
      else if length bounds < 2 then Inl ValueError
      else Inr (bounds ! 0, bounds ! 1))"
proof (cases bounds)
  case Nil
  then show ?thesis by (simp add: electron_bounds_def)
next
  case (Cons a as)
  then show ?thesis
    by (cases as) (simp_all add: electron_bounds_def unpack2_def)
qed

lemma query_without_type_two:
  assumes "\<not> e_h p" and "\<not> h_e p" and "\<not> energies_valid p"
  shows "calculate_s1_energies c brentq bounds res as_ev p =
           (Inl (if res < 0 \<or> (bounds \<noteq> [] \<and> length bounds < 2) then ValueError else TypeError), p)"
proof (cases "res < 0")
  case True
  then show ?thesis using assms by (simp add: calculate_s1_energies_def linspace_def)
next
  case False
  then have r: "0 \<le> res" by simp
  have b: "bracket_and_refine brentq (\<lambda>x. electron_eigenvalue_residual c x p) lo hi res
             = Inl TypeError" for lo hi
    using r assms by (intro bracket_and_refine_error) (simp_all add: residual_none)
  show ?thesis
    using assms r
    by (simp add: calculate_s1_energies_def linspace_samples electron_bounds_cases b)
qed

lemma do_call_keeps_untyped:
  assumes "\<not> e_h p" and "\<not> h_e p" and "\<not> energies_valid p"
  shows "\<not> e_h (do_call c brentq p k) \<and> \<not> h_e (do_call c brentq p k) \<and>
         \<not> energies_valid (do_call c brentq p k)"
proof (cases k)
  case (SetCoreWidth x)
  then show ?thesis using assms by (simp add: set_core_width_def)
next
  case (SetShellWidth x)
  then show ?thesis using assms by (simp add: set_shell_width_def)
next
  case (CalculateS1Energies bounds res as_ev)
  then show ?thesis using assms by (simp add: query_without_type_two)
qed

lemma do_calls_keeps_untyped:
  assumes "\<not> e_h p" and "\<not> h_e p" and "\<not> energies_valid p"
  shows "\<not> e_h (do_calls c brentq p calls) \<and> \<not> h_e (do_calls c brentq p calls) \<and>
         \<not> energies_valid (do_calls c brentq p calls)"
  using assms
proof (induction calls arbitrary: p)
  case Nil
  then show ?case by (simp add: do_calls_def)
next
  case (Cons k calls)
  from do_call_keeps_untyped [OF Cons.prems, of c brentq k]
  have "\<not> e_h (do_call c brentq p k)" "\<not> h_e (do_call c brentq p k)"
    "\<not> energies_valid (do_call c brentq p k)" by simp_all
  from Cons.IH [OF this] show ?case by (simp add: do_calls_def)
qed

lemma init_fields:
  "energies_valid (CoreShellParticle_init c cm sm cw sw) = False"
  "s1_e (CoreShellParticle_init c cm sm cw sw) = None"
  "cmat (CoreShellParticle_init c cm sm cw sw) = cm"
  "smat (CoreShellParticle_init c cm sm cw sw) = sm"
  by (simp_all add: CoreShellParticle_init_def split: prod.splits)

lemma hole_bounds_cache_fields:
  "hole_bounds bounds (p\<lparr> s1_e := v \<rparr>) = hole_bounds bounds p"
  "electron_bounds bounds (p\<lparr> s1_e := v \<rparr>) = electron_bounds bounds p"
  by (simp_all add: hole_bounds_def electron_bounds_def)

text \<open>The query on a stale particle, without the sampling of line 101.\<close>

lemma query_stale:
  assumes "\<not> energies_valid p" and "0 \<le> res"
  shows "calculate_s1_energies c brentq bounds res as_ev p =
     (case electron_bounds bounds p of
        Inl err \<Rightarrow> (Inl err, p)
      | Inr (lo_e, hi_e) \<Rightarrow>
        (case bracket_and_refine brentq (\<lambda>x. electron_eigenvalue_residual c x p) lo_e hi_e res of
           Inl err \<Rightarrow> (Inl err, p)
         | Inr root_e \<Rightarrow>
           (case hole_bounds bounds p of
              Inl err \<Rightarrow> (Inl err, p\<lparr> s1_e := Some root_e \<rparr>)
            | Inr (lo_h, hi_h) \<Rightarrow>
              (case bracket_and_refine brentq (\<lambda>x. hole_eigenvalue_residual c x p) lo_h hi_h res of
                 Inl err \<Rightarrow> (Inl err, p\<lparr> s1_e := Some root_e \<rparr>)
               | Inr root_h \<Rightarrow>
                   (Inr (if as_ev then (Some (root_e / e_const c), Some (root_h / e_const c))
                         else (Some root_e, Some root_h)),
                    p\<lparr> s1_e := Some root_e, s1_h := Some root_h, energies_valid := True \<rparr>)))))"
  using assms
  by (simp add: calculate_s1_energies_def linspace_samples Let_def hole_residual_cache_fields
      hole_bounds_cache_fields split: sum.splits prod.splits)

lemma query_negative_resolution:
  assumes "\<not> energies_valid p" and "res < 0"
  shows "calculate_s1_energies c brentq bounds res as_ev p = (Inl ValueError, p)"
  using assms by (simp add: calculate_s1_energies_def linspace_def)

lemma query_s1_e_irrelevant:
  assumes "\<not> energies_valid p"
  shows "fst (calculate_s1_energies c brentq bounds res as_ev (p\<lparr> s1_e := v \<rparr>))
           = fst (calculate_s1_energies c brentq bounds res as_ev p)"
proof (cases "res < 0")
  case True
  then show ?thesis using assms by (simp add: query_negative_resolution)
next
  case False
  then have r: "0 \<le> res" by simp
  have s: "\<not> energies_valid (p\<lparr> s1_e := v \<rparr>)" using assms by simp
  show ?thesis
    unfolding query_stale [OF s r] query_stale [OF assms r]
    by (simp add: electron_residual_cache_fields hole_residual_cache_fields
        hole_bounds_cache_fields split: sum.splits prod.splits)
qed

lemma query_stale_shape:
  assumes "\<not> energies_valid p"
  shows "(\<exists>err. calculate_s1_energies c brentq bounds res True p = (Inl err, p)) \<or>
         (\<exists>err r. calculate_s1_energies c brentq bounds res True p = (Inl err, p\<lparr> s1_e := Some r \<rparr>)) \<or>
         (\<exists>re rh. calculate_s1_energies c brentq bounds res True p =
            (Inr (Some (re / e_const c), Some (rh / e_const c)),
             p\<lparr> s1_e := Some re, s1_h := Some rh, energies_valid := True \<rparr>))"
proof (cases "res < 0")
  case True
  then show ?thesis using assms by (simp add: query_negative_resolution)
next
  case False
  then have r: "0 \<le> res" by simp
  show ?thesis
    unfolding query_stale [OF assms r]
    by (auto split: sum.splits prod.splits)
qed

lemma two_queries:
  assumes "\<not> energies_valid p"
  shows "fst (calculate_s1_energies c brentq bounds res True p) =
         map_sum id (\<lambda>(a, b). (map_option (\<lambda>v. v / e_const c) a, map_option (\<lambda>v. v / e_const c) b))
           (fst (calculate_s1_energies c brentq bounds res True
                   (snd (calculate_s1_energies c brentq bounds res True p))))"
proof -
  consider (a) err where "calculate_s1_energies c brentq bounds res True p = (Inl err, p)"
    | (b) err r where
        "calculate_s1_energies c brentq bounds res True p = (Inl err, p\<lparr> s1_e := Some r \<rparr>)"
    | (c) re rh where "calculate_s1_energies c brentq bounds res True p =
            (Inr (Some (re / e_const c), Some (rh / e_const c)),
             p\<lparr> s1_e := Some re, s1_h := Some rh, energies_valid := True \<rparr>)"
    using query_stale_shape [OF assms, of c brentq bounds res] by blast
  then show ?thesis
  proof cases
    case a
    then show ?thesis by simp
  next
    case b
    then show ?thesis using query_s1_e_irrelevant [OF assms, of c brentq bounds res True "Some r"]
      by simp
  next
    case c
    then show ?thesis by (simp add: calculate_s1_energies_def)
  qed
qed

text \<open>
  C10, as stated, fails: on a particle with neither type-II flag a query with resolution
  \<open>-1\<close> raises the \<open>ValueError\<close> of \<open>np.linspace\<close> on line 101, and a query with the
  one-element bounds \<open>(1,)\<close> the \<open>ValueError\<close> of the unpacking on line 103, both before any
  residual runs: the exception is not the one of arithmetic on \<open>None\<close>. And when the
  validity flag of such a particle has been set by hand, the query returns the pair
  \<open>(None, None)\<close> and raises nothing.
\<close>

theorem energy_query_value_error_counterexample:
  "calculate_s1_energies codata (\<lambda>f a b. f a) [] (- 1) True
       (CoreShellParticle_init codata nested_core nested_shell (123 / 100) (105 / 100))
     = (Inl ValueError,
        CoreShellParticle_init codata nested_core nested_shell (123 / 100) (105 / 100)) \<and>
   calculate_s1_energies codata (\<lambda>f a b. f a) [1] 1000 True
       (CoreShellParticle_init codata nested_core nested_shell (123 / 100) (105 / 100))
     = (Inl ValueError,
        CoreShellParticle_init codata nested_core nested_shell (123 / 100) (105 / 100)) \<and>
   calculate_s1_energies codata (\<lambda>f a b. f a) [] 1000 True
       ((CoreShellParticle_init codata nested_core nested_shell (123 / 100) (105 / 100))
          \<lparr> energies_valid := True \<rparr>)
     = (Inr (None, None),
        (CoreShellParticle_init codata nested_core nested_shell (123 / 100) (105 / 100))
          \<lparr> energies_valid := True \<rparr>)"
proof -
  let ?p = "CoreShellParticle_init codata nested_core nested_shell (123 / 100) (105 / 100)"
  have a: "\<not> e_h ?p" and b: "\<not> h_e ?p" and v: "\<not> energies_valid ?p"
    by (simp_all add: CoreShellParticle_init_def is_type_two_def Let_def nested_core_def
        nested_shell_def)
  have c1: "calculate_s1_energies codata (\<lambda>f a b. f a) [] (- 1) True ?p = (Inl ValueError, ?p)"
    using query_without_type_two [OF a b v, of codata "\<lambda>f a b. f a" "[]" "- 1" True] by simp
  have c2: "calculate_s1_energies codata (\<lambda>f a b. f a) [1] 1000 True ?p = (Inl ValueError, ?p)"
    using query_without_type_two [OF a b v, of codata "\<lambda>f a b. f a" "[1]" 1000 True] by simp
  have n: "s1_e ?p = None" "s1_h ?p = None"
    by (simp_all add: CoreShellParticle_init_def split: prod.splits)
  have c3: "calculate_s1_energies codata (\<lambda>f a b. f a) [] 1000 True
              (?p\<lparr> energies_valid := True \<rparr>)
            = (Inr (None, None), ?p\<lparr> energies_valid := True \<rparr>)"
    using n by (simp add: calculate_s1_energies_def)
  show ?thesis using c1 c2 c3 by blast
qed

text \<open>
  C10, amended. A particle that the constructor built with neither \<open>h_e\<close> nor \<open>e_h\<close> set
  stays so under any sequence of width mutations and energy queries, and for it both
  residuals leave their wavevectors \<open>None\<close> and raise the \<open>TypeError\<close> of the product of
  \<open>None\<close> with a width, at every energy. Every energy query on it returns an exception and
  leaves the particle as it was: a \<open>ValueError\<close> for a negative resolution or for bounds of
  one element, and that \<open>TypeError\<close> otherwise. So a query that returns energies needs one
  of the two type-II orderings.
\<close>

theorem energy_query_needs_type_two:
  assumes "\<not> e_h (CoreShellParticle_init c cm sm cw sw)"
    and "\<not> h_e (CoreShellParticle_init c cm sm cw sw)"
  shows "electron_wavevectors c energy
           (do_calls c brentq (CoreShellParticle_init c cm sm cw sw) calls) = (None, None) \<and>
         hole_wavevectors c energy
           (do_calls c brentq (CoreShellParticle_init c cm sm cw sw) calls) = (None, None) \<and>
         electron_eigenvalue_residual c energy
           (do_calls c brentq (CoreShellParticle_init c cm sm cw sw) calls) = Inl TypeError \<and>
         hole_eigenvalue_residual c energy
           (do_calls c brentq (CoreShellParticle_init c cm sm cw sw) calls) = Inl TypeError \<and>
         calculate_s1_energies c brentq bounds res as_ev
             (do_calls c brentq (CoreShellParticle_init c cm sm cw sw) calls)
           = (Inl (if res < 0 \<or> (bounds \<noteq> [] \<and> length bounds < 2)
                   then ValueError else TypeError),
              do_calls c brentq (CoreShellParticle_init c cm sm cw sw) calls) \<and>
         (0 \<le> res \<and> (bounds = [] \<or> 2 \<le> length bounds) \<longrightarrow>
            calculate_s1_energies c brentq bounds res as_ev
                   (do_calls c brentq (CoreShellParticle_init c cm sm cw sw) calls)
              = (Inl TypeError, do_calls c brentq (CoreShellParticle_init c cm sm cw sw) calls))"
proof -
  let ?p = "do_calls c brentq (CoreShellParticle_init c cm sm cw sw) calls"
  have "\<not> energies_valid (CoreShellParticle_init c cm sm cw sw)" by (simp add: init_fields)
  from do_calls_keeps_untyped [OF assms this, of c brentq calls]
  have p: "\<not> e_h ?p" "\<not> h_e ?p" "\<not> energies_valid ?p" by simp_all
  note q = query_without_type_two [OF p, of c brentq bounds res as_ev]
  have "calculate_s1_energies c brentq bounds res as_ev ?p = (Inl TypeError, ?p)"
    if "0 \<le> res \<and> (bounds = [] \<or> 2 \<le> length bounds)"
    unfolding q using that by auto
  then show ?thesis
    using q residual_none [OF p(1,2), of c energy] by blast
qed

theorem energy_query_needs_type_two_witness:
  "\<not> e_h (CoreShellParticle_init codata nested_core nested_shell (123 / 100) (105 / 100)) \<and>
   \<not> h_e (CoreShellParticle_init codata nested_core nested_shell (123 / 100) (105 / 100)) \<and>
   (0::int) \<le> 1000 \<and>
   calculate_s1_energies codata (\<lambda>f a b. Inr a) [] 1000 True
       (do_calls codata (\<lambda>f a b. Inr a)
          (CoreShellParticle_init codata nested_core nested_shell (123 / 100) (105 / 100))
          [SetShellWidth 2, CalculateS1Energies [] 1000 True])
     = (Inl TypeError,
        do_calls codata (\<lambda>f a b. Inr a)
          (CoreShellParticle_init codata nested_core nested_shell (123 / 100) (105 / 100))
          [SetShellWidth 2, CalculateS1Energies [] 1000 True])"
proof -
  have a: "\<not> e_h (CoreShellParticle_init codata nested_core nested_shell (123 / 100) (105 / 100))"
    by (simp add: CoreShellParticle_init_def is_type_two_def Let_def nested_core_def nested_shell_def)
  have b: "\<not> h_e (CoreShellParticle_init codata nested_core nested_shell (123 / 100) (105 / 100))"
    by (simp add: CoreShellParticle_init_def is_type_two_def Let_def nested_core_def nested_shell_def)
  have r: "(0::int) \<le> 1000" by simp
  note t = energy_query_needs_type_two [OF a b, of "[]" "\<lambda>f a b. Inr a"
      "[SetShellWidth 2, CalculateS1Energies [] 1000 True]" "[]" 1000 True]
  show ?thesis using a b r t by blast
qed

text \<open>
  C2. Two queries in a row on an unmodified particle should give the same result. They do
  not: after a width mutation the first query with \<open>as_ev\<close> computes the energies, stores
  them in joules and returns them divided by \<open>e\<close>; the second finds the validity flag set
  and returns the stored values as they are. Whatever the root finder and the bounds, the
  first result is the second divided by \<open>e\<close> (an exception is the same both times). The
  second conjunct is the cache hit itself: the stored pair comes back undivided although
  \<open>as_ev\<close> is set, and neither the scan nor the root finder is consulted.
\<close>

theorem second_query_returns_joules:
  "fst (calculate_s1_energies c brentq bounds res True (set_core_width x p)) =
   map_sum id (\<lambda>(a, b). (map_option (\<lambda>v. v / e_const c) a, map_option (\<lambda>v. v / e_const c) b))
     (fst (calculate_s1_energies c brentq bounds res True
             (snd (calculate_s1_energies c brentq bounds res True (set_core_width x p))))) \<and>
   calculate_s1_energies c brentq bounds res True
       (p\<lparr> s1_e := Some a, s1_h := Some b, energies_valid := True \<rparr>)
     = (Inr (Some a, Some b), p\<lparr> s1_e := Some a, s1_h := Some b, energies_valid := True \<rparr>)"
proof -
  have "\<not> energies_valid (set_core_width x p)" by (simp add: set_core_width_def)
  from two_queries [OF this, of c brentq bounds res] show ?thesis
    by (simp add: calculate_s1_energies_def)
qed

subsection \<open>Sampling, brackets and the search\<close>

lemma samples_3: "map (sample_point 0 1 3) [0..<nat 3] = [0, 1 / 2, 1]"
  by (simp add: sample_point_def upt_conv_Cons)

lemma samples_2: "map (sample_point 0 1 2) [0..<nat 2] = [0, 1]"
  by (simp add: sample_point_def upt_conv_Cons)

lemma samples_4: "map (sample_point 0 3 4) [0..<nat 4] = [0, 1, 2, 3]"
  by (simp add: sample_point_def upt_conv_Cons)

lemma residual_defined:
  assumes "core_x \<noteq> []" and "length shell_x = length core_x"
  shows "\<exists>ys. residual core_x shell_x cw sw mr = Inr ys \<and> length ys = length core_x"
  using assms by (auto simp: residual_def tanxdivx_vectorized_def)

lemma electron_residual_defined:
  assumes "e_h p \<or> h_e p" and "m_e (cmat p) \<noteq> 0" and "xs \<noteq> []"
  shows "\<exists>ys. electron_eigenvalue_residual c xs p = Inr ys \<and> length ys = length xs"
proof -
  have "\<exists>k q. electron_wavevectors c xs p = (Some k, Some q) \<and>
               length k = length xs \<and> length q = length xs"
    using assms(1) by (cases "e_h p") (simp_all add: electron_wavevectors_def)
  then obtain k q where kq: "electron_wavevectors c xs p = (Some k, Some q)"
    and l: "length k = length xs" "length q = length xs"
    by blast
  have "\<exists>ys. residual (map (\<lambda>z. z * of_real (core_width p)) k)
                       (map (\<lambda>z. z * of_real (shell_width p)) q)
                       (core_width p) (shell_width p) (m_e (smat p) / m_e (cmat p)) = Inr ys \<and>
             length ys = length (map (\<lambda>z. z * of_real (core_width p)) k)"
    using l assms(3) by (intro residual_defined) auto
  then show ?thesis
    using assms(2) l by (simp add: electron_eigenvalue_residual_def kq times_width_def py_div_def)
qed

lemma hole_residual_defined:
  assumes "e_h p \<or> h_e p" and "m_h (cmat p) \<noteq> 0" and "xs \<noteq> []"
  shows "\<exists>ys. hole_eigenvalue_residual c xs p = Inr ys \<and> length ys = length xs"
proof -
  have "\<exists>k q. hole_wavevectors c xs p = (Some k, Some q) \<and>
               length k = length xs \<and> length q = length xs"
    using assms(1) by (cases "e_h p") (simp_all add: hole_wavevectors_def)
  then obtain k q where kq: "hole_wavevectors c xs p = (Some k, Some q)"
    and l: "length k = length xs" "length q = length xs"
    by blast
  have "\<exists>ys. residual (map (\<lambda>z. z * of_real (core_width p)) k)
                       (map (\<lambda>z. z * of_real (shell_width p)) q)
                       (core_width p) (shell_width p) (m_h (smat p) / m_h (cmat p)) = Inr ys \<and>
             length ys = length (map (\<lambda>z. z * of_real (core_width p)) k)"
    using l assms(3) by (intro residual_defined) auto
  then show ?thesis
    using assms(2) l by (simp add: hole_eigenvalue_residual_def kq times_width_def py_div_def)
qed

lemma scan_single_sample:
  assumes "f [lo] = Inr y" and "length y = 1"
  shows "scan_and_bracket f lo hi 1 = Inl IndexError"
proof -
  have s: "f (map (sample_point lo hi 1) [0..<nat 1]) = Inr y"
    using assms(1) by (simp add: sample_point_def)
  have "\<forall>i. i + 1 < length y \<longrightarrow> \<not> sgn (y ! i) < sgn (y ! (i + 1))"
    using assms(2) by simp
  with s show ?thesis
    by (intro scan_and_bracket_no_increase [where f = f and y = y]) simp_all
qed

lemma bracket_and_refine_scan_error:
  "scan_and_bracket f lo hi res = Inl err \<Longrightarrow> bracket_and_refine brentq f lo hi res = Inl err"
  by (simp add: bracket_and_refine_def)

lemma InP_CdS_particle:
  "h_e (CoreShellParticle_init codata InP CdS (123 / 100) (105 / 100))"
  "m_e (cmat (CoreShellParticle_init codata InP CdS (123 / 100) (105 / 100))) \<noteq> 0"
  "m_h (cmat (CoreShellParticle_init codata InP CdS (123 / 100) (105 / 100))) \<noteq> 0"
  "\<not> energies_valid (CoreShellParticle_init codata InP CdS (123 / 100) (105 / 100))"
  by (simp_all add: CoreShellParticle_init_def is_type_two_def Let_def InP_def CdS_def)

lemma sample_point_spacing:
  "sample_point lo hi res 0 = lo"
  "2 \<le> res \<Longrightarrow> sample_point lo hi res (nat res - 1) = hi"
  "res \<noteq> 1 \<Longrightarrow> sample_point lo hi res (i + 1) - sample_point lo hi res i
                   = (hi - lo) / real_of_int (res - 1)"
proof -
  show "sample_point lo hi res 0 = lo" by (simp add: sample_point_def)
  show "sample_point lo hi res (nat res - 1) = hi" if "2 \<le> res"
  proof -
    have "real (nat res - 1) = real_of_int (res - 1)" using that by (simp add: of_nat_diff)
    moreover have "real_of_int (res - 1) \<noteq> 0" using that by simp
    ultimately show ?thesis using that by (simp add: sample_point_def)
  qed
  show "sample_point lo hi res (i + 1) - sample_point lo hi res i
          = (hi - lo) / real_of_int (res - 1)" if "res \<noteq> 1"
    using that by (simp add: sample_point_def distrib_right add_divide_distrib)
qed

lemma sgn_increase_nonzero:
  "u \<noteq> 0 \<Longrightarrow> v \<noteq> 0 \<Longrightarrow> (sgn u < sgn v) = (u < 0 \<and> 0 < (v::real))"
  by (auto simp: sgn_real_def)

lemma bounds_cases:
  "electron_bounds [] p = Inr (0, 5 * ue p)"
  "hole_bounds [] p = Inr (0, 5 * uh p)"
  "electron_bounds [a, b, a', b'] p = Inr (a, b)"
  "hole_bounds [a, b, a', b'] p = Inr (a', b')"
  by (simp_all add: electron_bounds_def hole_bounds_def unpack2_def)

subsection \<open>A scan without a bound state\<close>

lemma tanxdivx_pos:
  assumes "0 \<le> x" and "x < 1"
  shows "0 < tanxdivx (x::real)"
proof (cases "\<bar>x\<bar> < 1 / 10 ^ 13")
  case True
  have "x\<^sup>2 < 1" using assms by (simp add: power_less_one_iff abs_square_less_1)
  then show ?thesis using True by (simp add: tanxdivx_def Let_def)
next
  case False
  then have p: "0 < x" using assms(1) by (cases "x = 0") simp_all
  have "x < pi / 2" using assms(2) pi_ge_two by simp
  with p have "0 < tan x" by (rule tan_gt_zero)
  with p False show ?thesis by (simp add: tanxdivx_def Let_def)
qed

lemma residual_value_negative:
  assumes "0 < ta" and "0 < tb" and "0 \<le> mr" and "mr \<le> 1" and "0 \<le> cw" and "0 < sw"
  shows "(1 - 1 / ta) * mr - 1 - 1 / tb * cw / sw < (0::real)"
proof -
  have a: "0 \<le> mr / ta" using assms by simp
  have b: "0 \<le> 1 / tb * cw / sw" using assms by simp
  have c: "(1 - 1 / ta) * mr = mr - mr / ta" by (simp add: algebra_simps)
  have "mr - mr / ta - 1 < 0"
  proof (cases "mr = 1")
    case True
    then show ?thesis using assms(1) by simp
  next
    case False
    with assms(4) have "mr < 1" by simp
    with a show ?thesis by linarith
  qed
  with b c show ?thesis by linarith
qed

lemma wavenumber_real:
  assumes "0 \<le> 2 * m * m_e_const c * (E - U)"
  shows "wavenumber_from_energy c E m U
           = complex_of_real (sqrt (2 * m * m_e_const c * (E - U)) / hbar c)"
  using assms by (simp add: wavenumber_from_energy_def csqrt_scimath_def complex_eq_iff)

lemma zip_of_maps: "zip (map A xs) (map B xs) = map (\<lambda>E. (A E, B E)) xs"
  by (induction xs) simp_all

lemma residual_on_reals:
  assumes "xs \<noteq> []"
  shows "residual (map (\<lambda>E. complex_of_real (a E)) xs) (map (\<lambda>E. complex_of_real (b E)) xs)
           cw sw mr
         = Inr (map (\<lambda>E. (1 - 1 / tanxdivx (a E)) * mr - 1 - 1 / tanxdivx (b E) * cw / sw) xs)"
proof -
  have "Re ((1 - 1 / tanxdivx (complex_of_real u)) * complex_of_real mr - 1
            - 1 / tanxdivx (complex_of_real v) * complex_of_real cw / complex_of_real sw)
        = (1 - 1 / tanxdivx u) * mr - 1 - 1 / tanxdivx v * cw / sw" for u v
  proof -
    have "(1 - 1 / tanxdivx (complex_of_real u)) * complex_of_real mr - 1
            - 1 / tanxdivx (complex_of_real v) * complex_of_real cw / complex_of_real sw
          = complex_of_real ((1 - 1 / tanxdivx u) * mr - 1 - 1 / tanxdivx v * cw / sw)"
      by (simp add: tanxdivx_of_real)
    then show ?thesis by (simp only: Re_complex_of_real)
  qed
  then show ?thesis
    using assms
    by (simp add: residual_def tanxdivx_vectorized_def zip_of_maps o_def)
qed

lemma residual_negative_on_reals:
  assumes "xs \<noteq> []"
    and "\<forall>E\<in>set xs. 0 \<le> a E \<and> a E < 1 \<and> 0 \<le> b E \<and> b E < 1"
    and "0 \<le> mr" and "mr \<le> 1" and "0 \<le> cw" and "0 < sw"
  shows "\<exists>ys. residual (map (\<lambda>E. complex_of_real (a E)) xs)
                       (map (\<lambda>E. complex_of_real (b E)) xs) cw sw mr = Inr ys \<and>
              length ys = length xs \<and> (\<forall>y\<in>set ys. y < 0)"
proof -
  let ?R = "\<lambda>E. (1 - 1 / tanxdivx (a E)) * mr - 1 - 1 / tanxdivx (b E) * cw / sw"
  have "?R E < 0" if "E \<in> set xs" for E
  proof -
    from that assms(2) have "0 < tanxdivx (a E)" "0 < tanxdivx (b E)"
      by (simp_all add: tanxdivx_pos)
    then show ?thesis using assms(3-6) by (rule residual_value_negative)
  qed
  then have "\<forall>y\<in>set (map ?R xs). y < 0" by auto
  moreover have "length (map ?R xs) = length xs" by simp
  ultimately show ?thesis
    using residual_on_reals [OF assms(1), of a b cw sw mr] by blast
qed

lemma e_h_wavevectors_real:
  assumes "e_h p"
    and "\<forall>E\<in>set xs. 0 \<le> 2 * m_e (cmat p) * m_e_const c * E \<and>
                     0 \<le> 2 * m_e (smat p) * m_e_const c * (E - ue p)"
  shows "electron_wavevectors c xs p =
           (Some (map (\<lambda>E. complex_of_real (sqrt (2 * m_e (cmat p) * m_e_const c * E) / hbar c))
                   xs),
            Some (map (\<lambda>E. complex_of_real
                              (sqrt (2 * m_e (smat p) * m_e_const c * (E - ue p)) / hbar c))
                   xs))"
proof -
  have k: "wavenumber_from_energy c E (m_e (cmat p)) 0
             = complex_of_real (sqrt (2 * m_e (cmat p) * m_e_const c * E) / hbar c)"
    if "E \<in> set xs" for E
    using that assms(2) wavenumber_real [of "m_e (cmat p)" c E 0] by simp
  have q: "wavenumber_from_energy c E (m_e (smat p)) (ue p)
             = complex_of_real (sqrt (2 * m_e (smat p) * m_e_const c * (E - ue p)) / hbar c)"
    if "E \<in> set xs" for E
    using that assms(2) wavenumber_real [of "m_e (smat p)" c E "ue p"] by simp
  show ?thesis
    using assms(1) k q by (simp add: electron_wavevectors_def cong: map_cong)
qed

lemma hole_wavevectors_same: "hole_wavevectors c xs p = electron_wavevectors c xs p"
  by (simp add: hole_wavevectors_def electron_wavevectors_def)

lemma e_h_residuals_negative:
  assumes "e_h p" and "xs \<noteq> []" and "0 \<le> core_width p" and "0 < shell_width p"
    and "\<forall>E\<in>set xs. 0 \<le> 2 * m_e (cmat p) * m_e_const c * E \<and>
                     0 \<le> 2 * m_e (smat p) * m_e_const c * (E - ue p)"
    and "\<forall>E\<in>set xs.
           0 \<le> sqrt (2 * m_e (cmat p) * m_e_const c * E) / hbar c * core_width p \<and>
           sqrt (2 * m_e (cmat p) * m_e_const c * E) / hbar c * core_width p < 1 \<and>
           0 \<le> sqrt (2 * m_e (smat p) * m_e_const c * (E - ue p)) / hbar c * shell_width p \<and>
           sqrt (2 * m_e (smat p) * m_e_const c * (E - ue p)) / hbar c * shell_width p < 1"
  shows "m_e (cmat p) \<noteq> 0 \<Longrightarrow> 0 \<le> m_e (smat p) / m_e (cmat p) \<Longrightarrow>
         m_e (smat p) / m_e (cmat p) \<le> 1 \<Longrightarrow>
           \<exists>ys. electron_eigenvalue_residual c xs p = Inr ys \<and> length ys = length xs \<and>
                (\<forall>y\<in>set ys. y < 0)"
    and "m_h (cmat p) \<noteq> 0 \<Longrightarrow> 0 \<le> m_h (smat p) / m_h (cmat p) \<Longrightarrow>
         m_h (smat p) / m_h (cmat p) \<le> 1 \<Longrightarrow>
           \<exists>ys. hole_eigenvalue_residual c xs p = Inr ys \<and> length ys = length xs \<and>
                (\<forall>y\<in>set ys. y < 0)"
proof -
  note w = e_h_wavevectors_real [OF assms(1,5)]
  have r: "\<exists>ys. residual
             (map (\<lambda>E. complex_of_real
                     (sqrt (2 * m_e (cmat p) * m_e_const c * E) / hbar c * core_width p)) xs)
             (map (\<lambda>E. complex_of_real
                     (sqrt (2 * m_e (smat p) * m_e_const c * (E - ue p)) / hbar c
                      * shell_width p)) xs)
             (core_width p) (shell_width p) mr = Inr ys \<and>
           length ys = length xs \<and> (\<forall>y\<in>set ys. y < 0)"
    if "0 \<le> mr" "mr \<le> 1" for mr
    using assms(2) assms(6) that assms(3,4) by (rule residual_negative_on_reals)
  show "\<exists>ys. electron_eigenvalue_residual c xs p = Inr ys \<and> length ys = length xs \<and>
                (\<forall>y\<in>set ys. y < 0)"
    if "m_e (cmat p) \<noteq> 0" "0 \<le> m_e (smat p) / m_e (cmat p)" "m_e (smat p) / m_e (cmat p) \<le> 1"
    using r [OF that(2,3)] that(1)
    by (simp add: electron_eigenvalue_residual_def w times_width_def py_div_def o_def)
  show "\<exists>ys. hole_eigenvalue_residual c xs p = Inr ys \<and> length ys = length xs \<and>
                (\<forall>y\<in>set ys. y < 0)"
    if "m_h (cmat p) \<noteq> 0" "0 \<le> m_h (smat p) / m_h (cmat p)" "m_h (smat p) / m_h (cmat p) \<le> 1"
    using r [OF that(2,3)] that(1)
    by (simp add: hole_eigenvalue_residual_def hole_wavevectors_same w times_width_def
        py_div_def o_def)
qed

lemma negative_values_no_increase:
  assumes "\<forall>y\<in>set ys. y < (0::real)"
  shows "\<forall>i. i + 1 < length ys \<longrightarrow> \<not> sgn (ys ! i) < sgn (ys ! (i + 1))"
proof (intro allI impI)
  fix i assume "i + 1 < length ys"
  then have "ys ! i \<in> set ys" "ys ! (i + 1) \<in> set ys" by simp_all
  with assms have "ys ! i < 0" "ys ! (i + 1) < 0" by blast+
  then show "\<not> sgn (ys ! i) < sgn (ys ! (i + 1))" by simp
qed

lemma samples_interval_3:
  "map (sample_point a b 3) [0..<nat 3] = [a, a + (b - a) / 2, b]"
  by (simp add: sample_point_def upt_conv_Cons field_simps)

lemma CdS_InP_particle:
  "e_h (CoreShellParticle_init codata CdS InP (3 / 10) (3 / 10))"
  "\<not> energies_valid (CoreShellParticle_init codata CdS InP (3 / 10) (3 / 10))"
  "cmat (CoreShellParticle_init codata CdS InP (3 / 10) (3 / 10)) = CdS"
  "smat (CoreShellParticle_init codata CdS InP (3 / 10) (3 / 10)) = InP"
  "core_width (CoreShellParticle_init codata CdS InP (3 / 10) (3 / 10)) = 3 / 10 * n_nano"
  "shell_width (CoreShellParticle_init codata CdS InP (3 / 10) (3 / 10)) = 3 / 10 * n_nano"
  "ue (CoreShellParticle_init codata CdS InP (3 / 10) (3 / 10)) = 39 / 100 * e_const codata"
  by (simp_all add: CoreShellParticle_init_def is_type_two_def Let_def InP_def CdS_def)

lemma small_argument:
  assumes "0 \<le> K" and "K < (h / w)\<^sup>2" and "0 < h" and "0 < w"
  shows "0 \<le> sqrt K / h * w \<and> sqrt K / h * w < 1"
proof -
  have "sqrt K < h / w"
    using assms by (intro real_less_lsqrt) simp_all
  then have "sqrt K * w < h" using assms(4) by (simp add: pos_less_divide_eq)
  then have "sqrt K / h * w < 1" using assms(3) by (simp add: pos_divide_less_eq)
  moreover have "0 \<le> sqrt K / h * w" using assms by simp
  ultimately show ?thesis by simp
qed

lemma CdS_InP_small_arguments:
  assumes "39 / 100 * e_const codata \<le> E" and "E \<le> 2 * (39 / 100 * e_const codata)"
  shows "0 \<le> 2 * m_e CdS * m_e_const codata * E"
    and "0 \<le> 2 * m_e InP * m_e_const codata * (E - 39 / 100 * e_const codata)"
    and "0 \<le> sqrt (2 * m_e CdS * m_e_const codata * E) / hbar codata * (3 / 10 * n_nano) \<and>
         sqrt (2 * m_e CdS * m_e_const codata * E) / hbar codata * (3 / 10 * n_nano) < 1"
    and "0 \<le> sqrt (2 * m_e InP * m_e_const codata * (E - 39 / 100 * e_const codata))
               / hbar codata * (3 / 10 * n_nano) \<and>
         sqrt (2 * m_e InP * m_e_const codata * (E - 39 / 100 * e_const codata))
               / hbar codata * (3 / 10 * n_nano) < 1"
proof -
  have e: "0 < e_const codata" and m: "0 < m_e_const codata" and h: "0 < hbar codata"
    using valid_codata by (simp_all add: valid_constants_def)
  have w: "0 < 3 / 10 * n_nano" using n_nano_pos by simp
  have E0: "0 \<le> E" using assms(1) e by simp
  have mc: "0 < m_e CdS" and ms: "0 < m_e InP" by (simp_all add: CdS_def InP_def)
  show k0: "0 \<le> 2 * m_e CdS * m_e_const codata * E" using E0 m mc by simp
  show q0: "0 \<le> 2 * m_e InP * m_e_const codata * (E - 39 / 100 * e_const codata)"
    using assms(1) m ms by simp
  have top: "2 * m_e CdS * m_e_const codata * (2 * (39 / 100 * e_const codata))
               < (hbar codata / (3 / 10 * n_nano))\<^sup>2"
    by (simp add: CdS_def codata_def n_nano_def power2_eq_square)
  have "2 * m_e CdS * m_e_const codata * E
          \<le> 2 * m_e CdS * m_e_const codata * (2 * (39 / 100 * e_const codata))"
    using assms(2) m mc by simp
  with top have kk: "2 * m_e CdS * m_e_const codata * E < (hbar codata / (3 / 10 * n_nano))\<^sup>2"
    by linarith
  have "2 * m_e InP * m_e_const codata * (E - 39 / 100 * e_const codata)
          \<le> 2 * m_e InP * m_e_const codata * E"
    using e m ms by simp
  also have "\<dots> \<le> 2 * m_e CdS * m_e_const codata * E"
    using E0 m by (simp add: CdS_def InP_def mult_right_mono)
  finally have qq: "2 * m_e InP * m_e_const codata * (E - 39 / 100 * e_const codata)
                      < (hbar codata / (3 / 10 * n_nano))\<^sup>2"
    using kk by linarith
  show "0 \<le> sqrt (2 * m_e CdS * m_e_const codata * E) / hbar codata * (3 / 10 * n_nano) \<and>
         sqrt (2 * m_e CdS * m_e_const codata * E) / hbar codata * (3 / 10 * n_nano) < 1"
    using k0 kk h w by (rule small_argument)
  show "0 \<le> sqrt (2 * m_e InP * m_e_const codata * (E - 39 / 100 * e_const codata))
               / hbar codata * (3 / 10 * n_nano) \<and>
         sqrt (2 * m_e InP * m_e_const codata * (E - 39 / 100 * e_const codata))
               / hbar codata * (3 / 10 * n_nano) < 1"
    using q0 qq h w by (rule small_argument)
qed

lemma CdS_InP_scans:
  "scan_and_bracket
     (\<lambda>x. electron_eigenvalue_residual codata x
             (CoreShellParticle_init codata CdS InP (3 / 10) (3 / 10)))
     (ue (CoreShellParticle_init codata CdS InP (3 / 10) (3 / 10)))
     (2 * ue (CoreShellParticle_init codata CdS InP (3 / 10) (3 / 10))) 3 = Inl IndexError"
  "scan_and_bracket
     (\<lambda>x. hole_eigenvalue_residual codata x
             (CoreShellParticle_init codata CdS InP (3 / 10) (3 / 10)))
     (ue (CoreShellParticle_init codata CdS InP (3 / 10) (3 / 10)))
     (2 * ue (CoreShellParticle_init codata CdS InP (3 / 10) (3 / 10))) 3 = Inl IndexError"
proof -
  let ?p = "CoreShellParticle_init codata CdS InP (3 / 10) (3 / 10)"
  let ?U = "39 / 100 * e_const codata"
  let ?xs = "map (sample_point (ue ?p) (2 * ue ?p) 3) [0..<nat 3]"
  note f = CdS_InP_particle
  have e: "0 < e_const codata" using valid_codata by (simp add: valid_constants_def)
  have xs: "?xs = [?U, ?U + (2 * ?U - ?U) / 2, 2 * ?U]"
    by (simp only: samples_interval_3 f(7))
  have range: "\<forall>E\<in>set ?xs. ?U \<le> E \<and> E \<le> 2 * ?U"
    unfolding xs using e by simp
  have ne: "?xs \<noteq> []" unfolding xs by simp
  have w: "0 \<le> core_width ?p" "0 < shell_width ?p"
    using n_nano_pos by (simp_all add: f)
  have a5: "\<forall>E\<in>set ?xs. 0 \<le> 2 * m_e (cmat ?p) * m_e_const codata * E \<and>
                     0 \<le> 2 * m_e (smat ?p) * m_e_const codata * (E - ue ?p)"
    using range CdS_InP_small_arguments(1,2) by (simp only: f) blast
  have a6: "\<forall>E\<in>set ?xs.
           0 \<le> sqrt (2 * m_e (cmat ?p) * m_e_const codata * E) / hbar codata * core_width ?p \<and>
           sqrt (2 * m_e (cmat ?p) * m_e_const codata * E) / hbar codata * core_width ?p < 1 \<and>
           0 \<le> sqrt (2 * m_e (smat ?p) * m_e_const codata * (E - ue ?p)) / hbar codata
                 * shell_width ?p \<and>
           sqrt (2 * m_e (smat ?p) * m_e_const codata * (E - ue ?p)) / hbar codata
                 * shell_width ?p < 1"
    using range CdS_InP_small_arguments(3,4) by (simp only: f) blast
  note neg = e_h_residuals_negative [OF f(1) ne w a5 a6]
  have me: "m_e (cmat ?p) \<noteq> 0" "0 \<le> m_e (smat ?p) / m_e (cmat ?p)"
    "m_e (smat ?p) / m_e (cmat ?p) \<le> 1"
    by (simp_all only: f) (simp_all add: CdS_def InP_def)
  have mh: "m_h (cmat ?p) \<noteq> 0" "0 \<le> m_h (smat ?p) / m_h (cmat ?p)"
    "m_h (smat ?p) / m_h (cmat ?p) \<le> 1"
    by (simp_all only: f) (simp_all add: CdS_def InP_def)
  obtain ye where ye: "electron_eigenvalue_residual codata ?xs ?p = Inr ye"
    and ye_neg: "\<forall>y\<in>set ye. y < 0"
    using neg(1) [OF me] by blast
  obtain yh where yh: "hole_eigenvalue_residual codata ?xs ?p = Inr yh"
    and yh_neg: "\<forall>y\<in>set yh. y < 0"
    using neg(2) [OF mh] by blast
  have r: "(0::int) \<le> 3" by simp
  show "scan_and_bracket (\<lambda>x. electron_eigenvalue_residual codata x ?p)
          (ue ?p) (2 * ue ?p) 3 = Inl IndexError"
    using r ye negative_values_no_increase [OF ye_neg]
    by (rule scan_and_bracket_no_increase
        [where f = "\<lambda>x. electron_eigenvalue_residual codata x ?p" and y = ye])
  show "scan_and_bracket (\<lambda>x. hole_eigenvalue_residual codata x ?p)
          (ue ?p) (2 * ue ?p) 3 = Inl IndexError"
    using r yh negative_values_no_increase [OF yh_neg]
    by (rule scan_and_bracket_no_increase
        [where f = "\<lambda>x. hole_eigenvalue_residual codata x ?p" and y = yh])
qed

text \<open>
  C3, as stated, fails twice. The residual that is 1 everywhere has no sign transition on
  three samples of \<open>[0, 1]\<close>, and the scan raises \<open>IndexError\<close>: the source has no
  \<open>NoBoundStateFound\<close>. The residual \<open>x\<close> sampled at 0 and 1 takes the values 0 and 1, so no
  sample is negative and there is no negative-to-positive transition, and yet the scan
  returns the bracket \<open>(0, 1)\<close>.
\<close>

theorem scan_counterexample:
  "scan_and_bracket (\<lambda>xs. Inr (map (\<lambda>x. 1) xs)) 0 1 3 = Inl IndexError \<and>
   scan_and_bracket (\<lambda>xs. Inr (map (\<lambda>x. x) xs)) 0 1 2 = Inr (0, 1)"
proof -
  have a: "scan_and_bracket (\<lambda>xs. Inr (map (\<lambda>x. 1) xs)) 0 1 3 = Inl IndexError"
    by (subst scan_and_bracket_result [where y = "[1, 1, 1]"])
       (simp_all add: samples_3 upt_conv_Cons)
  have b: "scan_and_bracket (\<lambda>xs. Inr (map (\<lambda>x. x) xs)) 0 1 2 = Inr (0, 1)"
    by (subst scan_and_bracket_result [where y = "[0, 1]"])
       (simp_all add: samples_2 upt_conv_Cons sample_point_def)
  show ?thesis using a b by simp
qed

text \<open>
  C3, amended. For a non-negative resolution: when the residual returns values on the
  sample points and at no sample the sign is strictly above the sign at the sample before
  it, the scan raises \<open>IndexError\<close>. A query on a stale particle whose electron scan raises
  returns that exception and leaves the particle as it was. One whose hole scan raises
  returns the exception of the electron search if that search raised, and otherwise the
  exception of the hole scan, with \<open>s1_e\<close> assigned and the validity flag still unset. No
  value is returned in place of the exception.
\<close>

theorem scan_without_sign_increase_raises:
  assumes "0 \<le> res"
  shows "(f (map (sample_point lo hi res) [0..<nat res]) = Inr y \<and>
          (\<forall>i. i + 1 < length y \<longrightarrow> \<not> sgn (y ! i) < sgn (y ! (i + 1))) \<longrightarrow>
            scan_and_bracket f lo hi res = Inl IndexError) \<and>
         (\<not> energies_valid p \<and> electron_bounds bounds p = Inr (lo_e, hi_e) \<and>
          scan_and_bracket (\<lambda>x. electron_eigenvalue_residual c x p) lo_e hi_e res = Inl err \<longrightarrow>
            calculate_s1_energies c brentq bounds res as_ev p = (Inl err, p)) \<and>
         (\<not> energies_valid p \<and> electron_bounds bounds p = Inr (lo_e, hi_e) \<and>
          hole_bounds bounds p = Inr (lo_h, hi_h) \<and>
          scan_and_bracket (\<lambda>x. hole_eigenvalue_residual c x p) lo_h hi_h res = Inl err \<longrightarrow>
            calculate_s1_energies c brentq bounds res as_ev p =
              (case bracket_and_refine brentq (\<lambda>x. electron_eigenvalue_residual c x p)
                      lo_e hi_e res of
                 Inl err_e \<Rightarrow> (Inl err_e, p)
               | Inr root_e \<Rightarrow> (Inl err, p\<lparr> s1_e := Some root_e \<rparr>)))"
proof (intro conjI impI)
  assume "f (map (sample_point lo hi res) [0..<nat res]) = Inr y \<and>
          (\<forall>i. i + 1 < length y \<longrightarrow> \<not> sgn (y ! i) < sgn (y ! (i + 1)))"
  then show "scan_and_bracket f lo hi res = Inl IndexError"
    using assms by (intro scan_and_bracket_no_increase [where f = f and y = y]) simp_all
next
  assume a: "\<not> energies_valid p \<and> electron_bounds bounds p = Inr (lo_e, hi_e) \<and>
          scan_and_bracket (\<lambda>x. electron_eigenvalue_residual c x p) lo_e hi_e res = Inl err"
  then have "bracket_and_refine brentq (\<lambda>x. electron_eigenvalue_residual c x p) lo_e hi_e res
               = Inl err"
    by (simp add: bracket_and_refine_scan_error)
  with a assms show "calculate_s1_energies c brentq bounds res as_ev p = (Inl err, p)"
    by (simp add: query_stale)
next
  assume a: "\<not> energies_valid p \<and> electron_bounds bounds p = Inr (lo_e, hi_e) \<and>
          hole_bounds bounds p = Inr (lo_h, hi_h) \<and>
          scan_and_bracket (\<lambda>x. hole_eigenvalue_residual c x p) lo_h hi_h res = Inl err"
  then have b: "bracket_and_refine brentq (\<lambda>x. hole_eigenvalue_residual c x p) lo_h hi_h res
               = Inl err"
    by (simp add: bracket_and_refine_scan_error)
  from a have s: "\<not> energies_valid p" by simp
  show "calculate_s1_energies c brentq bounds res as_ev p =
              (case bracket_and_refine brentq (\<lambda>x. electron_eigenvalue_residual c x p)
                      lo_e hi_e res of
                 Inl err_e \<Rightarrow> (Inl err_e, p)
               | Inr root_e \<Rightarrow> (Inl err, p\<lparr> s1_e := Some root_e \<rparr>))"
    unfolding query_stale [OF s assms] using a b
    by (simp split: sum.splits)
qed

theorem scan_without_sign_increase_raises_witness:
  "(0::int) \<le> 3 \<and>
   (\<lambda>xs. Inr (map (\<lambda>x. 1) xs)) (map (sample_point 0 1 3) [0..<nat 3]) = Inr [1, 1, 1 :: real] \<and>
   scan_and_bracket (\<lambda>xs. Inr (map (\<lambda>x. 1) xs)) 0 1 3 = Inl IndexError \<and>
   \<not> energies_valid (CoreShellParticle_init codata CdS InP (3 / 10) (3 / 10)) \<and>
   electron_bounds
       [ue (CoreShellParticle_init codata CdS InP (3 / 10) (3 / 10)),
        2 * ue (CoreShellParticle_init codata CdS InP (3 / 10) (3 / 10)),
        ue (CoreShellParticle_init codata CdS InP (3 / 10) (3 / 10)),
        2 * ue (CoreShellParticle_init codata CdS InP (3 / 10) (3 / 10))]
       (CoreShellParticle_init codata CdS InP (3 / 10) (3 / 10))
     = Inr (ue (CoreShellParticle_init codata CdS InP (3 / 10) (3 / 10)),
            2 * ue (CoreShellParticle_init codata CdS InP (3 / 10) (3 / 10))) \<and>
   hole_bounds
       [ue (CoreShellParticle_init codata CdS InP (3 / 10) (3 / 10)),
        2 * ue (CoreShellParticle_init codata CdS InP (3 / 10) (3 / 10)),
        ue (CoreShellParticle_init codata CdS InP (3 / 10) (3 / 10)),
        2 * ue (CoreShellParticle_init codata CdS InP (3 / 10) (3 / 10))]
       (CoreShellParticle_init codata CdS InP (3 / 10) (3 / 10))
     = Inr (ue (CoreShellParticle_init codata CdS InP (3 / 10) (3 / 10)),
            2 * ue (CoreShellParticle_init codata CdS InP (3 / 10) (3 / 10))) \<and>
   scan_and_bracket
       (\<lambda>x. electron_eigenvalue_residual codata x
               (CoreShellParticle_init codata CdS InP (3 / 10) (3 / 10)))
       (ue (CoreShellParticle_init codata CdS InP (3 / 10) (3 / 10)))
       (2 * ue (CoreShellParticle_init codata CdS InP (3 / 10) (3 / 10))) 3
     = Inl IndexError \<and>
   scan_and_bracket
       (\<lambda>x. hole_eigenvalue_residual codata x
               (CoreShellParticle_init codata CdS InP (3 / 10) (3 / 10)))
       (ue (CoreShellParticle_init codata CdS InP (3 / 10) (3 / 10)))
       (2 * ue (CoreShellParticle_init codata CdS InP (3 / 10) (3 / 10))) 3
     = Inl IndexError \<and>
   calculate_s1_energies codata (\<lambda>f a b. f a)
       [ue (CoreShellParticle_init codata CdS InP (3 / 10) (3 / 10)),
        2 * ue (CoreShellParticle_init codata CdS InP (3 / 10) (3 / 10)),
        ue (CoreShellParticle_init codata CdS InP (3 / 10) (3 / 10)),
        2 * ue (CoreShellParticle_init codata CdS InP (3 / 10) (3 / 10))]
       3 True (CoreShellParticle_init codata CdS InP (3 / 10) (3 / 10))
     = (Inl IndexError, CoreShellParticle_init codata CdS InP (3 / 10) (3 / 10)) \<and>
   calculate_s1_energies codata (\<lambda>f a b. f a)
       [ue (CoreShellParticle_init codata CdS InP (3 / 10) (3 / 10)),
        2 * ue (CoreShellParticle_init codata CdS InP (3 / 10) (3 / 10)),
        ue (CoreShellParticle_init codata CdS InP (3 / 10) (3 / 10)),
        2 * ue (CoreShellParticle_init codata CdS InP (3 / 10) (3 / 10))]
       3 True (CoreShellParticle_init codata CdS InP (3 / 10) (3 / 10))
     = (case bracket_and_refine (\<lambda>f a b. f a)
               (\<lambda>x. electron_eigenvalue_residual codata x
                       (CoreShellParticle_init codata CdS InP (3 / 10) (3 / 10)))
               (ue (CoreShellParticle_init codata CdS InP (3 / 10) (3 / 10)))
               (2 * ue (CoreShellParticle_init codata CdS InP (3 / 10) (3 / 10))) 3 of
          Inl err_e \<Rightarrow> (Inl err_e, CoreShellParticle_init codata CdS InP (3 / 10) (3 / 10))
        | Inr root_e \<Rightarrow>
            (Inl IndexError,
             (CoreShellParticle_init codata CdS InP (3 / 10) (3 / 10))\<lparr> s1_e := Some root_e \<rparr>))"
proof -
  let ?p = "CoreShellParticle_init codata CdS InP (3 / 10) (3 / 10)"
  let ?B = "[ue ?p, 2 * ue ?p, ue ?p, 2 * ue ?p]"
  have r: "(0::int) \<le> 3" by simp
  have f: "(\<lambda>xs. Inr (map (\<lambda>x. 1) xs)) (map (sample_point 0 1 3) [0..<nat 3])
             = Inr [1, 1, 1 :: real]"
    unfolding samples_3 by simp
  have n: "\<forall>i. i + 1 < length [1, 1, 1 :: real]
               \<longrightarrow> \<not> sgn ([1, 1, 1 :: real] ! i) < sgn ([1, 1, 1] ! (i + 1))"
    by (simp add: nth_Cons split: nat.splits)
  note v = CdS_InP_particle(2)
  have eb: "electron_bounds ?B ?p = Inr (ue ?p, 2 * ue ?p)" by (rule bounds_cases(3))
  have hb: "hole_bounds ?B ?p = Inr (ue ?p, 2 * ue ?p)" by (rule bounds_cases(4))
  note se = CdS_InP_scans(1) and sh = CdS_InP_scans(2)
  note t = scan_without_sign_increase_raises [OF r,
      of "\<lambda>xs. Inr (map (\<lambda>x. 1) xs)" 0 1 "[1, 1, 1]" ?p ?B "ue ?p" "2 * ue ?p" codata IndexError
         "\<lambda>f a b. f a" True "ue ?p" "2 * ue ?p"]
  from t f n have c1: "scan_and_bracket (\<lambda>xs. Inr (map (\<lambda>x. 1) xs)) 0 1 3 = Inl IndexError"
    by blast
  from t v eb se have c2: "calculate_s1_energies codata (\<lambda>f a b. f a) ?B 3 True ?p
                             = (Inl IndexError, ?p)"
    by blast
  from t v eb hb sh have c3: "calculate_s1_energies codata (\<lambda>f a b. f a) ?B 3 True ?p
     = (case bracket_and_refine (\<lambda>f a b. f a) (\<lambda>x. electron_eigenvalue_residual codata x ?p)
               (ue ?p) (2 * ue ?p) 3 of
          Inl err_e \<Rightarrow> (Inl err_e, ?p)
        | Inr root_e \<Rightarrow> (Inl IndexError, ?p\<lparr> s1_e := Some root_e \<rparr>))"
    by blast
  show ?thesis
    by (intro conjI) (fact r f c1 v eb hb se sh c2 c3)+
qed

text \<open>
  C5, as stated, fails twice. On the samples 0, 1, 2, 3 a residual with the values
  0, 1, -1, 1 has its first negative-to-positive transition between 2 and 3, and the scan
  returns \<open>(0, 1)\<close>, the step from zero to a positive value. And with the bounds
  \<open>(1, 2, 3, 4)\<close> the electron search scans \<open>[1, 2]\<close> and the hole search \<open>[3, 4]\<close>, not
  \<open>[0, 5 * ue]\<close> and \<open>[0, 5 * uh]\<close>.
\<close>

theorem search_counterexample:
  "scan_and_bracket
     (\<lambda>xs. Inr (map (\<lambda>x. if x = 0 then 0 else if x = 2 then - 1 else 1) xs)) 0 3 4 = Inr (0, 1) \<and>
   electron_bounds [1, 2, 3, 4] (CoreShellParticle_init codata InP CdS (123 / 100) (105 / 100))
     = Inr (1, 2) \<and>
   hole_bounds [1, 2, 3, 4] (CoreShellParticle_init codata InP CdS (123 / 100) (105 / 100))
     = Inr (3, 4)"
proof -
  have a: "scan_and_bracket
     (\<lambda>xs. Inr (map (\<lambda>x. if x = 0 then 0 else if x = 2 then - 1 else 1) xs)) 0 3 4 = Inr (0, 1)"
    by (subst scan_and_bracket_result [where y = "[0, 1, - 1, 1]"])
       (simp_all add: samples_4 upt_conv_Cons sample_point_def)
  show ?thesis using a by (simp add: electron_bounds_def hole_bounds_def unpack2_def)
qed

text \<open>
  C5, amended. For a non-negative resolution \<open>res\<close>: the samples are the \<open>res\<close> points
  \<open>sample_point lo hi res i\<close>, equally spaced from \<open>lo\<close> to \<open>hi\<close>; the scan returns \<open>(a, b)\<close>
  exactly when the residual returns values \<open>y\<close> on them and \<open>a, b\<close> are the samples \<open>i\<close> and
  \<open>i + 1\<close> for the first \<open>i\<close> at which the sign of \<open>y\<close> strictly increases (from negative to
  positive when neither value is zero, never a decrease); the refinement hands that pair to
  the root finder; the range is \<open>[0, 5 * ue]\<close> for the electron and \<open>[0, 5 * uh]\<close> for the
  hole when no bounds are given and the given bounds otherwise; and a query on a stale
  particle is the electron search followed by the hole search.
\<close>

theorem eigen_energy_search:
  assumes "0 \<le> res"
  shows "linspace lo hi res = Inr (map (sample_point lo hi res) [0..<nat res]) \<and>
         sample_point lo hi res 0 = lo \<and>
         (2 \<le> res \<longrightarrow> sample_point lo hi res (nat res - 1) = hi) \<and>
         (res \<noteq> 1 \<longrightarrow> sample_point lo hi res (k + 1) - sample_point lo hi res k
                          = (hi - lo) / real_of_int (res - 1)) \<and>
         (scan_and_bracket f lo hi res = Inr (a, b) \<longleftrightarrow>
            (\<exists>y i. f (map (sample_point lo hi res) [0..<nat res]) = Inr y \<and>
                   i + 1 < length y \<and> i + 1 < nat res \<and>
                   sgn (y ! i) < sgn (y ! (i + 1)) \<and>
                   (\<forall>j<i. \<not> sgn (y ! j) < sgn (y ! (j + 1))) \<and>
                   a = sample_point lo hi res i \<and> b = sample_point lo hi res (i + 1))) \<and>
         (u \<noteq> 0 \<and> v \<noteq> 0 \<longrightarrow> (sgn u < sgn v) = (u < 0 \<and> 0 < (v::real))) \<and>
         bracket_and_refine brentq f lo hi res =
           (case scan_and_bracket f lo hi res of
              Inl err \<Rightarrow> Inl err
            | Inr (x0, x1) \<Rightarrow> brentq (scalar_call f) x0 x1) \<and>
         electron_bounds [] p = Inr (0, 5 * ue p) \<and>
         hole_bounds [] p = Inr (0, 5 * uh p) \<and>
         electron_bounds [a_e, b_e, a_h, b_h] p = Inr (a_e, b_e) \<and>
         hole_bounds [a_e, b_e, a_h, b_h] p = Inr (a_h, b_h) \<and>
         (\<not> energies_valid p \<longrightarrow>
          calculate_s1_energies c brentq bounds res as_ev p =
            (case electron_bounds bounds p of
               Inl err \<Rightarrow> (Inl err, p)
             | Inr (lo_e, hi_e) \<Rightarrow>
               (case bracket_and_refine brentq (\<lambda>x. electron_eigenvalue_residual c x p)
                       lo_e hi_e res of
                  Inl err \<Rightarrow> (Inl err, p)
                | Inr root_e \<Rightarrow>
                  (case hole_bounds bounds p of
                     Inl err \<Rightarrow> (Inl err, p\<lparr> s1_e := Some root_e \<rparr>)
                   | Inr (lo_h, hi_h) \<Rightarrow>
                     (case bracket_and_refine brentq (\<lambda>x. hole_eigenvalue_residual c x p)
                             lo_h hi_h res of
                        Inl err \<Rightarrow> (Inl err, p\<lparr> s1_e := Some root_e \<rparr>)
                      | Inr root_h \<Rightarrow>
                          (Inr (if as_ev
                                then (Some (root_e / e_const c), Some (root_h / e_const c))
                                else (Some root_e, Some root_h)),
                           p\<lparr> s1_e := Some root_e, s1_h := Some root_h,
                              energies_valid := True \<rparr>))))))"
proof -
  note s = sample_point_spacing [where lo = lo and hi = hi and res = res]
  have q: "\<not> energies_valid p \<longrightarrow>
          calculate_s1_energies c brentq bounds res as_ev p =
            (case electron_bounds bounds p of
               Inl err \<Rightarrow> (Inl err, p)
             | Inr (lo_e, hi_e) \<Rightarrow>
               (case bracket_and_refine brentq (\<lambda>x. electron_eigenvalue_residual c x p)
                       lo_e hi_e res of
                  Inl err \<Rightarrow> (Inl err, p)
                | Inr root_e \<Rightarrow>
                  (case hole_bounds bounds p of
                     Inl err \<Rightarrow> (Inl err, p\<lparr> s1_e := Some root_e \<rparr>)
                   | Inr (lo_h, hi_h) \<Rightarrow>
                     (case bracket_and_refine brentq (\<lambda>x. hole_eigenvalue_residual c x p)
                             lo_h hi_h res of
                        Inl err \<Rightarrow> (Inl err, p\<lparr> s1_e := Some root_e \<rparr>)
                      | Inr root_h \<Rightarrow>
                          (Inr (if as_ev
                                then (Some (root_e / e_const c), Some (root_h / e_const c))
                                else (Some root_e, Some root_h)),
                           p\<lparr> s1_e := Some root_e, s1_h := Some root_h,
                              energies_valid := True \<rparr>)))))"
    using query_stale [OF _ assms, of p c brentq bounds as_ev] by blast
  have br: "bracket_and_refine brentq f lo hi res =
           (case scan_and_bracket f lo hi res of
              Inl err \<Rightarrow> Inl err
            | Inr (x0, x1) \<Rightarrow> brentq (scalar_call f) x0 x1)"
    by (simp add: bracket_and_refine_def)
  have s2: "2 \<le> res \<longrightarrow> sample_point lo hi res (nat res - 1) = hi"
    using s(2) by blast
  have s3: "res \<noteq> 1 \<longrightarrow> sample_point lo hi res (k + 1) - sample_point lo hi res k
                          = (hi - lo) / real_of_int (res - 1)"
    using s(3) by blast
  have g: "u \<noteq> 0 \<and> v \<noteq> 0 \<longrightarrow> (sgn u < sgn v) = (u < 0 \<and> 0 < (v::real))"
    using sgn_increase_nonzero [of u v] by blast
  show ?thesis
    by (intro conjI)
       (fact linspace_samples [OF assms] s(1) s2 s3 g q br bounds_cases
          scan_and_bracket_iff [OF assms])+
qed

theorem eigen_energy_search_witness:
  "(0::int) \<le> 4 \<and> (2::int) \<le> 4 \<and> (4::int) \<noteq> 1 \<and> (- 1::real) \<noteq> 0 \<and> (1::real) \<noteq> 0 \<and>
   \<not> energies_valid (CoreShellParticle_init codata InP CdS (123 / 100) (105 / 100)) \<and>
   sample_point 0 3 4 (nat 4 - 1) = 3 \<and>
   sample_point 0 3 4 (0 + 1) - sample_point 0 3 4 0 = (3 - 0) / real_of_int (4 - 1) \<and>
   scan_and_bracket (\<lambda>xs. Inr (map (\<lambda>x. x - 5 / 2) xs)) 0 3 4 = Inr (2, 3) \<and>
   (sgn (- 1 :: real) < sgn 1) = ((- 1 :: real) < 0 \<and> (0::real) < 1) \<and>
   calculate_s1_energies codata (\<lambda>f a b. f a) [] 4 True
       (CoreShellParticle_init codata InP CdS (123 / 100) (105 / 100)) =
     (case electron_bounds [] (CoreShellParticle_init codata InP CdS (123 / 100) (105 / 100)) of
        Inl err \<Rightarrow> (Inl err, CoreShellParticle_init codata InP CdS (123 / 100) (105 / 100))
      | Inr (lo_e, hi_e) \<Rightarrow>
        (case bracket_and_refine (\<lambda>f a b. f a)
                (\<lambda>x. electron_eigenvalue_residual codata x
                       (CoreShellParticle_init codata InP CdS (123 / 100) (105 / 100)))
                lo_e hi_e 4 of
           Inl err \<Rightarrow> (Inl err, CoreShellParticle_init codata InP CdS (123 / 100) (105 / 100))
         | Inr root_e \<Rightarrow>
           (case hole_bounds [] (CoreShellParticle_init codata InP CdS (123 / 100) (105 / 100)) of
              Inl err \<Rightarrow>
                (Inl err,
                 (CoreShellParticle_init codata InP CdS (123 / 100) (105 / 100))
                   \<lparr> s1_e := Some root_e \<rparr>)
            | Inr (lo_h, hi_h) \<Rightarrow>
              (case bracket_and_refine (\<lambda>f a b. f a)
                      (\<lambda>x. hole_eigenvalue_residual codata x
                             (CoreShellParticle_init codata InP CdS (123 / 100) (105 / 100)))
                      lo_h hi_h 4 of
                 Inl err \<Rightarrow>
                   (Inl err,
                    (CoreShellParticle_init codata InP CdS (123 / 100) (105 / 100))
                      \<lparr> s1_e := Some root_e \<rparr>)
               | Inr root_h \<Rightarrow>
                   (Inr (if True
                         then (Some (root_e / e_const codata), Some (root_h / e_const codata))
                         else (Some root_e, Some root_h)),
                    (CoreShellParticle_init codata InP CdS (123 / 100) (105 / 100))
                      \<lparr> s1_e := Some root_e, s1_h := Some root_h,
                         energies_valid := True \<rparr>)))))"
proof -
  let ?p = "CoreShellParticle_init codata InP CdS (123 / 100) (105 / 100)"
  let ?y = "[- 5 / 2, - 3 / 2, - 1 / 2, 1 / 2 :: real]"
  let ?f = "\<lambda>xs :: real list. (Inr (map (\<lambda>x. x - 5 / 2) xs) :: error + real list)"
  have r: "(0::int) \<le> 4" and r2: "(2::int) \<le> 4" and r1: "(4::int) \<noteq> 1"
    and uv: "(- 1::real) \<noteq> 0" "(1::real) \<noteq> 0" by simp_all
  note v = InP_CdS_particle(4)
  note t = eigen_energy_search [OF r, of 0 3 0 ?f 2 3 "- 1" 1 "\<lambda>f a b. f a" ?p
      1 2 3 4 codata "[]" True]
  have fy: "?f (map (sample_point 0 3 4) [0..<nat 4]) = Inr ?y"
    unfolding samples_4 by simp
  have n: "\<forall>j<2::nat. \<not> sgn (?y ! j) < sgn (?y ! (j + 1))"
    by (simp add: less_Suc_eq numeral_2_eq_2)
  have ex: "\<exists>y i. ?f (map (sample_point 0 3 4) [0..<nat 4]) = Inr y \<and>
                   i + 1 < length y \<and> i + 1 < nat 4 \<and>
                   sgn (y ! i) < sgn (y ! (i + 1)) \<and>
                   (\<forall>j<i. \<not> sgn (y ! j) < sgn (y ! (j + 1))) \<and>
                   2 = sample_point 0 3 4 i \<and> 3 = sample_point 0 3 4 (i + 1)"
  proof (intro exI conjI)
    show "?f (map (sample_point 0 3 4) [0..<nat 4]) = Inr ?y" by (fact fy)
    show "\<forall>j<2::nat. \<not> sgn (?y ! j) < sgn (?y ! (j + 1))" by (fact n)
  qed (simp_all add: sample_point_def numeral_2_eq_2)
  from t ex have c1: "scan_and_bracket ?f 0 3 4 = Inr (2, 3)" by blast
  from t r2 have c2: "sample_point 0 3 4 (nat 4 - 1) = 3" by blast
  from t r1 have c3: "sample_point 0 3 4 (0 + 1) - sample_point 0 3 4 0
                        = (3 - 0) / real_of_int (4 - 1)" by blast
  from t uv have c4: "(sgn (- 1 :: real) < sgn 1) = ((- 1 :: real) < 0 \<and> (0::real) < 1)" by blast
  note c5 = t [THEN conjunct2, THEN conjunct2, THEN conjunct2, THEN conjunct2, THEN conjunct2,
      THEN conjunct2, THEN conjunct2, THEN conjunct2, THEN conjunct2, THEN conjunct2,
      THEN conjunct2, THEN mp, OF v]
  show ?thesis
    by (intro conjI) (fact r r2 r1 uv v c1 c2 c3 c4 c5)+
qed

end
